theory Spec2Isabelle
  imports Complex_Main "HOL-Library.Sublist" "HOL-Library.Log_Nat"
begin

section \<open>Conventions of the embedding\<close>

text \<open>
  The development embeds the ingestion, validation, provider and orchestration code of
  the image-processing server (\<^verbatim>\<open>utils.py\<close>, \<^verbatim>\<open>config.py\<close>, \<^verbatim>\<open>api_clients/base.py\<close>,
  \<^verbatim>\<open>api_clients/openai_client.py\<close>, \<^verbatim>\<open>server.py\<close>).

  \<^item> A Python \<^verbatim>\<open>str\<close> is a \<^typ>\<open>string\<close>, one \<^typ>\<open>char\<close> per code point (code points
    below 256); \<^verbatim>\<open>bytes\<close> is a \<^typ>\<open>char list\<close> as well, one \<^typ>\<open>char\<close> per byte.
  \<^item> A Python \<^verbatim>\<open>float\<close> is the rational number it denotes; arithmetic on floats rounds
    to the nearest binary64 value, ties to even (\<open>fl\<close> below).
  \<^item> An exception is a value of type \<open>error\<close>: its class and the text of \<^verbatim>\<open>str(e)\<close>.
    Message texts that interpolate values keep the interpolated values as constructor
    arguments instead of rendering them.
  \<^item> Everything outside the process (HTTP, file system, the image codec's decoder, the
    remote vision API, the clock, the UUID source) is an operation of an environment
    record that takes and returns an abstract world \<open>'w\<close>.
  \<^item> The tool functions are embedded at \<^verbatim>\<open>ctx=None\<close>, the default of their optional
    progress context, so the \<^verbatim>\<open>if ctx:\<close> notifications do not appear.
\<close>

type_synonym bytes = "char list"

section \<open>Python library functions used by the code\<close>

subsection \<open>Strings\<close>

text \<open>\<^verbatim>\<open>s.startswith(p)\<close> is \<^const>\<open>prefix\<close> \<open>p s\<close>; \<^verbatim>\<open>p in s\<close> is \<^const>\<open>sublist\<close> \<open>p s\<close>.\<close>

text \<open>\<^verbatim>\<open>s.split(",", 1)[1]\<close> for a string that contains a comma: what follows the first one.\<close>

fun after_first_comma :: "string \<Rightarrow> string" where
  "after_first_comma [] = []"
| "after_first_comma (c # cs) = (if c = CHR '','' then cs else after_first_comma cs)"

text \<open>\<^verbatim>\<open>str.isspace\<close> on one code point below 256 (also what \<^verbatim>\<open>\s\<close> matches in a
  \<^verbatim>\<open>str\<close> pattern): tab to carriage return, the four separators 28 to 31, space, NEL and
  the no-break space.\<close>

definition py_isspace :: "char \<Rightarrow> bool" where
  "py_isspace c = (let n = (of_char c :: nat) in
     (9 \<le> n \<and> n \<le> 13) \<or> (28 \<le> n \<and> n \<le> 32) \<or> n = 133 \<or> n = 160)"

text \<open>\<^verbatim>\<open>s.strip()\<close>.\<close>

definition py_strip :: "string \<Rightarrow> string" where
  "py_strip s = rev (dropWhile py_isspace (rev (dropWhile py_isspace s)))"

text \<open>\<^verbatim>\<open>re.split(r"[...]", s)\<close> for a character class: the pieces between the
  separators, empty pieces included.\<close>

fun re_split_class :: "(char \<Rightarrow> bool) \<Rightarrow> string \<Rightarrow> string list" where
  "re_split_class sep [] = [[]]"
| "re_split_class sep (c # cs) =
     (case re_split_class sep cs of
        [] \<Rightarrow> (if sep c then [[], []] else [[c]])
      | p # ps \<Rightarrow> (if sep c then [] # p # ps else (c # p) # ps))"

text \<open>ASCII lower-casing of one character, and the case-insensitive prefix test that
  a literal pattern compiled with \<^verbatim>\<open>re.IGNORECASE\<close> performs at the start of a string.\<close>

definition ascii_lower :: "char \<Rightarrow> char" where
  "ascii_lower c = (let n = (of_char c :: nat) in
     if 65 \<le> n \<and> n \<le> 90 then char_of (n + 32) else c)"

definition iprefix :: "string \<Rightarrow> string \<Rightarrow> bool" where
  "iprefix p s = prefix (map ascii_lower p) (map ascii_lower s)"

subsection \<open>Base64 with validation\<close>

text \<open>The value of a character in the standard base64 alphabet.\<close>

definition b64_value :: "char \<Rightarrow> nat option" where
  "b64_value c = (let n = (of_char c :: nat) in
     if 65 \<le> n \<and> n \<le> 90 then Some (n - 65)
     else if 97 \<le> n \<and> n \<le> 122 then Some (n - 71)
     else if 48 \<le> n \<and> n \<le> 57 then Some (n + 4)
     else if c = CHR ''+'' then Some 62
     else if c = CHR ''/'' then Some 63
     else None)"

text \<open>
  \<^verbatim>\<open>base64.b64decode(s, validate=True)\<close>, that is \<^verbatim>\<open>binascii.a2b_base64\<close> in strict
  mode: the scanner keeps the position in the current group of four (\<open>quad_pos\<close>), the
  bits left over from the previous character (\<open>leftchar\<close>), the number of padding
  characters seen in a row (\<open>pads\<close>) and whether padding has started. \<open>None\<close> is
  \<^verbatim>\<open>binascii.Error\<close>.
\<close>

fun a2b_scan :: "nat \<Rightarrow> nat \<Rightarrow> nat \<Rightarrow> bool \<Rightarrow> bytes \<Rightarrow> string \<Rightarrow> bytes option" where
  "a2b_scan quad_pos leftchar pads padding_started out [] =
     (if quad_pos \<noteq> 0 then None else Some out)"
| "a2b_scan quad_pos leftchar pads padding_started out (c # cs) =
     (if c = CHR ''='' then
        (if quad_pos \<ge> 2 \<and> quad_pos + (pads + 1) \<ge> 4 then
           (if cs \<noteq> [] then None else Some out)
         else a2b_scan quad_pos leftchar (if quad_pos \<ge> 2 then pads + 1 else pads) True out cs)
      else
        (case b64_value c of
           None \<Rightarrow> None
         | Some v \<Rightarrow>
             if padding_started then None
             else if quad_pos = 0 then a2b_scan 1 v 0 False out cs
             else if quad_pos = 1 then
               a2b_scan 2 (v mod 16) 0 False (out @ [char_of (leftchar * 4 + v div 16)]) cs
             else if quad_pos = 2 then
               a2b_scan 3 (v mod 4) 0 False (out @ [char_of (leftchar * 16 + v div 4)]) cs
             else a2b_scan 0 0 0 False (out @ [char_of (leftchar * 64 + v)]) cs))"

definition b64decode :: "string \<Rightarrow> bytes option" where
  "b64decode s = (if prefix ''='' s then None else a2b_scan 0 0 0 False [] s)"

subsection \<open>Path normalisation\<close>

text \<open>\<^verbatim>\<open>s.split("/")\<close> and \<^verbatim>\<open>"/".join(comps)\<close>.\<close>

definition split_slash :: "string \<Rightarrow> string list" where
  "split_slash s = re_split_class (\<lambda>c. c = CHR ''/'') s"

fun join_slash :: "string list \<Rightarrow> string" where
  "join_slash [] = []"
| "join_slash [c] = c"
| "join_slash (c # d # cs) = c @ ''/'' @ join_slash (d # cs)"

text \<open>The component loop of \<^verbatim>\<open>posixpath.normpath\<close>: \<open>new_comps\<close> is the stack of kept
  components, \<open>initial_slashes\<close> the number of leading slashes kept (0, 1 or 2).\<close>

fun normpath_comps :: "nat \<Rightarrow> string list \<Rightarrow> string list \<Rightarrow> string list" where
  "normpath_comps initial_slashes new_comps [] = new_comps"
| "normpath_comps initial_slashes new_comps (cmp # comps) =
     (if cmp = [] \<or> cmp = ''.'' then normpath_comps initial_slashes new_comps comps
      else if cmp \<noteq> ''..'' \<or> (initial_slashes = 0 \<and> new_comps = [])
              \<or> (new_comps \<noteq> [] \<and> last new_comps = ''..'')
        then normpath_comps initial_slashes (new_comps @ [cmp]) comps
      else if new_comps \<noteq> [] then normpath_comps initial_slashes (butlast new_comps) comps
      else normpath_comps initial_slashes new_comps comps)"

definition normpath :: "string \<Rightarrow> string" where
  "normpath path =
     (if path = [] then ''.''
      else
        let initial_slashes =
              (if prefix ''/'' path then
                 (if prefix ''//'' path \<and> \<not> prefix ''///'' path then 2 else 1)
               else (0::nat));
            comps = normpath_comps initial_slashes [] (split_slash path);
            joined = replicate initial_slashes CHR ''/'' @ join_slash comps
        in if joined = [] then ''.'' else joined)"

subsection \<open>Floating-point arithmetic\<close>

text \<open>Rounding to the nearest integer, ties to even.\<close>

definition round_half_even :: "rat \<Rightarrow> int" where
  "round_half_even x =
     (let f = \<lfloor>x\<rfloor>; d = x - of_int f
      in if d < 1 / 2 then f
         else if 1 / 2 < d then f + 1
         else if even f then f else f + 1)"

definition pow2 :: "int \<Rightarrow> rat" where
  "pow2 e = (if 0 \<le> e then 2 ^ nat e else 1 / 2 ^ nat (- e))"

text \<open>\<open>ilog2 x\<close> is the integer \<open>k\<close> with \<open>2 ^ k \<le> x < 2 ^ (k + 1)\<close>, for positive \<open>x\<close>.\<close>

definition ilog2 :: "rat \<Rightarrow> int" where
  "ilog2 x =
     (let (p, q) = quotient_of x; k = bitlen p - bitlen q
      in if pow2 k \<le> x then k else k - 1)"

text \<open>
  \<open>fl x\<close> is the binary64 value nearest to \<open>x\<close> (53 significant bits, ties to even,
  gradual underflow below \<open>2 ^ -1022\<close>). Overflow to infinity is not represented: no
  quantity of the program comes near \<open>2 ^ 1024\<close>.
\<close>

definition fl :: "rat \<Rightarrow> rat" where
  "fl x =
     (if x = 0 then 0
      else
        let a = \<bar>x\<bar>; e = max (ilog2 a - 52) (- 1074);
            m = round_half_even (a / pow2 e)
        in sgn x * of_int m * pow2 e)"

text \<open>\<^verbatim>\<open>a / b\<close> on two Python ints with \<open>b \<noteq> 0\<close> (the quotient, correctly rounded), a
  float product, and \<^verbatim>\<open>int(x)\<close> on a float (truncation toward zero).\<close>

definition py_truediv :: "int \<Rightarrow> int \<Rightarrow> rat" where
  "py_truediv a b = fl (of_int a / of_int b)"

definition py_fmul :: "rat \<Rightarrow> rat \<Rightarrow> rat" where
  "py_fmul x y = fl (x * y)"

definition py_int :: "rat \<Rightarrow> int" where
  "py_int x = (if 0 \<le> x then \<lfloor>x\<rfloor> else \<lceil>x\<rceil>)"

section \<open>Exceptions, images and the environment\<close>

text \<open>The text of an exception. \<open>Text\<close> is a literal or library-made message; every other
  constructor is one f-string of the code, with the values it interpolates.\<close>

datatype msg =
    Text string
  | SizeExceeds rat rat
  | UnsupportedFormat "string option"
  | InvalidFilePath string
  | FileNotFound string
  | NotAFile string
  | NotAnImageUrl string
  | UrlLoadFailed string
  | HttpStatus int
  | Base64Failed
  | FileLoadFailed msg
  | ProcessFailed msg
  | ClientUnsupportedFormat string
  | ImageTooLarge rat rat
  | NoApiKey string
  | UnsupportedProvider string
  | NotAValidEnum string string
  | RateLimitExceeded string
  | AuthenticationFailed string
  | ApiErrorText string
  | UnexpectedApiError msg
  | UnexpectedError msg

text \<open>The exception classes the code distinguishes; \<open>OtherError\<close> is any other class
  (\<^verbatim>\<open>OSError\<close>, \<^verbatim>\<open>ZeroDivisionError\<close>, the codec's and the model validator's errors).\<close>

datatype error =
    ImageValidationError msg
  | ImageLoadError msg
  | ValueError msg
  | OtherError msg

fun str_of :: "error \<Rightarrow> msg" where
  "str_of (ImageValidationError m) = m"
| "str_of (ImageLoadError m) = m"
| "str_of (ValueError m) = m"
| "str_of (OtherError m) = m"

text \<open>What the code reads of a \<^verbatim>\<open>PIL.Image\<close>: the format tag (\<^verbatim>\<open>None\<close> when the codec has
  none), the size, the mode, and whether the object has the \<^verbatim>\<open>_getexif\<close> attribute.\<close>

record image =
  format :: "string option"
  width :: int
  height :: int
  mode :: string
  has_getexif :: bool

text \<open>\<^verbatim>\<open>Image.resize(size, LANCZOS)\<close>: a new image of the requested size with no format
  tag; the codec refuses an empty size.\<close>

definition pil_resize :: "image \<Rightarrow> int \<times> int \<Rightarrow> error + image" where
  "pil_resize img new_size =
     (if fst new_size < 1 \<or> snd new_size < 1
      then Inl (ValueError (Text ''height and width must be > 0''))
      else Inr (img\<lparr>format := None, width := fst new_size, height := snd new_size,
                     has_getexif := False\<rparr>))"

text \<open>The metadata dictionary built by \<^verbatim>\<open>validate_and_process_image\<close>; the keys
  \<^verbatim>\<open>resized\<close> and \<^verbatim>\<open>original_size\<close> exist only after a resize.\<close>

record metadata =
  md_width :: int
  md_height :: int
  md_format :: "string option"
  md_mode :: string
  md_size_bytes :: nat
  md_resized :: "bool option"
  md_original_size :: "(int \<times> int) option"

text \<open>The outcome of \<^verbatim>\<open>client.get(url)\<close> followed by \<^verbatim>\<open>raise_for_status()\<close>.\<close>

datatype http_outcome =
    HttpRequestError string
  | HttpStatusError int
  | HttpOtherError error
  | HttpResponse "string option" bytes

text \<open>The outcome of \<^verbatim>\<open>chat.completions.create\<close>: one of the client library's
  exception classes, or the \<^verbatim>\<open>message.content\<close> of each returned choice.\<close>

datatype api_outcome =
    ApiRateLimitError string
  | ApiAuthenticationError string
  | ApiError string
  | ApiOtherError error
  | ApiChoices "string option list"

text \<open>A value produced by \<^verbatim>\<open>json.loads\<close>.\<close>

datatype json =
    JNull
  | JBool bool
  | JNum rat
  | JStr string
  | JList "json list"
  | JDict "(string \<times> json) list"

record 'w env =
  urlparse :: "string \<Rightarrow> (string \<times> string) option"
  json_loads :: "string \<Rightarrow> json option"
  lax_float :: "json \<Rightarrow> rat option"
  uuid4 :: "'w \<Rightarrow> string \<times> 'w"
  time_time :: "'w \<Rightarrow> rat \<times> 'w"
  sleep :: "rat \<Rightarrow> 'w \<Rightarrow> 'w"
  http_get :: "string \<Rightarrow> int \<Rightarrow> 'w \<Rightarrow> http_outcome \<times> 'w"
  path_exists :: "string \<Rightarrow> 'w \<Rightarrow> (error + bool) \<times> 'w"
  path_is_file :: "string \<Rightarrow> 'w \<Rightarrow> (error + bool) \<times> 'w"
  read_bytes :: "string \<Rightarrow> 'w \<Rightarrow> (error + bytes) \<times> 'w"
  image_open :: "bytes \<Rightarrow> 'w \<Rightarrow> (error + image) \<times> 'w"
  image_to_base64 :: "image \<Rightarrow> string \<Rightarrow> 'w \<Rightarrow> (error + string) \<times> 'w"
  chat_create :: "string \<Rightarrow> string \<Rightarrow> 'w \<Rightarrow> api_outcome \<times> 'w"

text \<open>
  \<^item> \<open>urlparse\<close> gives the scheme and the network location, \<open>None\<close> when it raises;
  \<open>json_loads\<close> gives \<open>None\<close> for \<^verbatim>\<open>JSONDecodeError\<close>; \<open>lax_float\<close> is the model
  validator's conversion of a non-numeric JSON value to a float field. These three do
  not touch the world.
  \<^item> \<open>image_to_base64\<close> stands for the function of that name in \<^verbatim>\<open>utils.py\<close>, whose body
  is the codec's encoder; \<open>chat_create\<close> takes the instruction text and the image URL of
  the single user message.
\<close>

section \<open>utils.py\<close>

definition validate_image_size :: "bytes \<Rightarrow> rat \<Rightarrow> error + unit" where
  "validate_image_size image_data max_size_mb =
     (let size_mb = py_truediv (int (length image_data)) (1024 * 1024)
      in if size_mb > max_size_mb
         then Inl (ImageValidationError (SizeExceeds size_mb max_size_mb))
         else Inr ())"

definition supported_formats :: "string list" where
  "supported_formats = [''JPEG'', ''PNG'', ''WebP'', ''GIF'', ''BMP'', ''TIFF'']"

definition validate_image_format :: "image \<Rightarrow> error + unit" where
  "validate_image_format img =
     (if format img \<notin> set (map Some supported_formats)
      then Inl (ImageValidationError (UnsupportedFormat (format img)))
      else Inr ())"

definition is_url :: "'w env \<Rightarrow> string \<Rightarrow> bool" where
  "is_url E source =
     (case urlparse E source of
        None \<Rightarrow> False
      | Some (scheme, netloc) \<Rightarrow> scheme \<noteq> [] \<and> netloc \<noteq> [])"

definition is_base64_image :: "string \<Rightarrow> bool" where
  "is_base64_image source =
     (if prefix ''data:image/'' source then True
      else
        let source' = (if CHR '','' \<in> set source then after_first_comma source else source)
        in case b64decode source' of
             None \<Rightarrow> False
           | Some decoded \<Rightarrow> length decoded > 0)"

definition sanitize_file_path :: "'w env \<Rightarrow> string \<Rightarrow> 'w \<Rightarrow> (error + string) \<times> 'w" where
  "sanitize_file_path E file_path w =
     (let clean_path = normpath file_path
      in if sublist ''..'' clean_path
         then (Inl (ImageValidationError (InvalidFilePath file_path)), w)
         else
           case path_exists E clean_path w of
             (Inl e, w1) \<Rightarrow> (Inl e, w1)
           | (Inr False, w1) \<Rightarrow> (Inl (ImageLoadError (FileNotFound file_path)), w1)
           | (Inr True, w1) \<Rightarrow>
               (case path_is_file E clean_path w1 of
                  (Inl e, w2) \<Rightarrow> (Inl e, w2)
                | (Inr False, w2) \<Rightarrow> (Inl (ImageLoadError (NotAFile file_path)), w2)
                | (Inr True, w2) \<Rightarrow> (Inr clean_path, w2)))"

definition load_image_from_url ::
  "'w env \<Rightarrow> string \<Rightarrow> int \<Rightarrow> 'w \<Rightarrow> (error + bytes) \<times> 'w" where
  "load_image_from_url E url timeout w =
     (case http_get E url timeout w of
        (HttpRequestError t, w1) \<Rightarrow> (Inl (ImageLoadError (UrlLoadFailed t)), w1)
      | (HttpStatusError status_code, w1) \<Rightarrow> (Inl (ImageLoadError (HttpStatus status_code)), w1)
      | (HttpOtherError e, w1) \<Rightarrow> (Inl e, w1)
      | (HttpResponse header content, w1) \<Rightarrow>
          (let content_type = (case header of None \<Rightarrow> [] | Some t \<Rightarrow> t)
           in if \<not> prefix ''image/'' content_type
              then (Inl (ImageLoadError (NotAnImageUrl content_type)), w1)
              else (Inr content, w1)))"

definition load_image_from_base64 :: "string \<Rightarrow> error + bytes" where
  "load_image_from_base64 base64_data =
     (let base64_data' =
            (if prefix ''data:image/'' base64_data \<and> CHR '','' \<in> set base64_data
             then after_first_comma base64_data else base64_data)
      in case b64decode base64_data' of
           None \<Rightarrow> Inl (ImageLoadError Base64Failed)
         | Some decoded \<Rightarrow> Inr decoded)"

definition load_image_from_file :: "'w env \<Rightarrow> string \<Rightarrow> 'w \<Rightarrow> (error + bytes) \<times> 'w" where
  "load_image_from_file E file_path w =
     (case sanitize_file_path E file_path w of
        (Inl e, w1) \<Rightarrow> (Inl (ImageLoadError (FileLoadFailed (str_of e))), w1)
      | (Inr path, w1) \<Rightarrow>
          (case read_bytes E path w1 of
             (Inl e, w2) \<Rightarrow> (Inl (ImageLoadError (FileLoadFailed (str_of e))), w2)
           | (Inr data, w2) \<Rightarrow> (Inr data, w2)))"

definition load_image_data ::
  "'w env \<Rightarrow> string \<Rightarrow> int \<Rightarrow> 'w \<Rightarrow> (error + bytes \<times> string) \<times> 'w" where
  "load_image_data E source timeout w =
     (if is_url E source then
        (case load_image_from_url E source timeout w of
           (Inl e, w1) \<Rightarrow> (Inl e, w1)
         | (Inr data, w1) \<Rightarrow> (Inr (data, ''url''), w1))
      else if is_base64_image source then
        (case load_image_from_base64 source of
           Inl e \<Rightarrow> (Inl e, w)
         | Inr data \<Rightarrow> (Inr (data, ''base64''), w))
      else
        (case load_image_from_file E source w of
           (Inl e, w1) \<Rightarrow> (Inl e, w1)
         | (Inr data, w1) \<Rightarrow> (Inr (data, ''file''), w1)))"

text \<open>The format tag read off the leading bytes when the codec gave none.\<close>

definition sniff_format :: "bytes \<Rightarrow> string" where
  "sniff_format image_data =
     (if prefix [CHR 0x89, CHR ''P'', CHR ''N'', CHR ''G''] image_data then ''PNG''
      else if prefix [CHR 0xFF, CHR 0xD8, CHR 0xFF] image_data then ''JPEG''
      else if prefix ''RIFF'' image_data \<and> sublist ''WEBP'' (take 12 image_data) then ''WEBP''
      else if prefix ''GIF8'' image_data then ''GIF''
      else ''PNG'')"

text \<open>The resize step; \<^verbatim>\<open>max_dimension / image.width\<close> raises \<^verbatim>\<open>ZeroDivisionError\<close> on a
  zero divisor.\<close>

definition max_dimension :: int where
  "max_dimension = 2048"

definition resize_step :: "image \<Rightarrow> metadata \<Rightarrow> error + image \<times> metadata" where
  "resize_step img md =
     (if width img > max_dimension \<or> height img > max_dimension then
        (if width img = 0 \<or> height img = 0
         then Inl (OtherError (Text ''division by zero''))
         else
           let ratio = min (py_truediv max_dimension (width img))
                           (py_truediv max_dimension (height img));
               new_size = (py_int (py_fmul (of_int (width img)) ratio),
                           py_int (py_fmul (of_int (height img)) ratio))
           in case pil_resize img new_size of
                Inl e \<Rightarrow> Inl e
              | Inr img' \<Rightarrow>
                  Inr (img',
                       md\<lparr>md_resized := Some True,
                          md_original_size := Some (md_width md, md_height md),
                          md_width := width img',
                          md_height := height img'\<rparr>))
      else Inr (img, md))"

text \<open>The \<^verbatim>\<open>except\<close> clause of \<^verbatim>\<open>validate_and_process_image\<close>: the two image errors pass, any
  other exception becomes an \<^verbatim>\<open>ImageValidationError\<close>.\<close>

fun reraise_as_validation :: "error \<Rightarrow> error" where
  "reraise_as_validation (ImageValidationError m) = ImageValidationError m"
| "reraise_as_validation (ImageLoadError m) = ImageLoadError m"
| "reraise_as_validation e = ImageValidationError (ProcessFailed (str_of e))"

definition validate_and_process_image ::
  "'w env \<Rightarrow> bytes \<Rightarrow> rat \<Rightarrow> bool \<Rightarrow> 'w \<Rightarrow> (error + image \<times> metadata) \<times> 'w" where
  "validate_and_process_image E image_data max_size_mb resize_if_needed w =
     (case validate_image_size image_data max_size_mb of
        Inl e \<Rightarrow> (Inl (reraise_as_validation e), w)
      | Inr _ \<Rightarrow>
          (case image_open E image_data w of
             (Inl e, w1) \<Rightarrow> (Inl (reraise_as_validation e), w1)
           | (Inr opened, w1) \<Rightarrow>
               (let img = (if format opened = None
                           then opened\<lparr>format := Some (sniff_format image_data)\<rparr>
                           else opened)
                in case validate_image_format img of
                     Inl e \<Rightarrow> (Inl (reraise_as_validation e), w1)
                   | Inr _ \<Rightarrow>
                       (let md = \<lparr>md_width = width img, md_height = height img,
                                  md_format = format img, md_mode = mode img,
                                  md_size_bytes = length image_data,
                                  md_resized = None, md_original_size = None\<rparr>
                        in if resize_if_needed then
                             (case resize_step img md of
                                Inl e \<Rightarrow> (Inl (reraise_as_validation e), w1)
                              | Inr r \<Rightarrow> (Inr r, w1))
                           else (Inr (img, md), w1)))))"

section \<open>models.py and config.py\<close>

datatype APIProvider = OPENAI | ANTHROPIC | GOOGLE | AZURE

fun provider_value :: "APIProvider \<Rightarrow> string" where
  "provider_value OPENAI = ''openai''"
| "provider_value ANTHROPIC = ''anthropic''"
| "provider_value GOOGLE = ''google''"
| "provider_value AZURE = ''azure''"

text \<open>\<^verbatim>\<open>APIProvider(s)\<close>: the member with that value, or \<^verbatim>\<open>ValueError\<close>.\<close>

definition to_APIProvider :: "string \<Rightarrow> error + APIProvider" where
  "to_APIProvider s =
     (case find (\<lambda>p. provider_value p = s) [OPENAI, ANTHROPIC, GOOGLE, AZURE] of
        Some p \<Rightarrow> Inr p
      | None \<Rightarrow> Inl (ValueError (NotAValidEnum s ''APIProvider'')))"

datatype AnalysisType =
    DESCRIPTION | OBJECTS | TEXT | COMPREHENSIVE
  | UI_ANALYSIS | ACCESSIBILITY_CHECK | DESIGN_REVIEW | UX_ISSUES

fun analysis_value :: "AnalysisType \<Rightarrow> string" where
  "analysis_value DESCRIPTION = ''description''"
| "analysis_value OBJECTS = ''objects''"
| "analysis_value TEXT = ''text''"
| "analysis_value COMPREHENSIVE = ''comprehensive''"
| "analysis_value UI_ANALYSIS = ''ui_analysis''"
| "analysis_value ACCESSIBILITY_CHECK = ''accessibility_check''"
| "analysis_value DESIGN_REVIEW = ''design_review''"
| "analysis_value UX_ISSUES = ''ux_issues''"

definition to_AnalysisType :: "string \<Rightarrow> error + AnalysisType" where
  "to_AnalysisType s =
     (case find (\<lambda>a. analysis_value a = s)
             [DESCRIPTION, OBJECTS, TEXT, COMPREHENSIVE,
              UI_ANALYSIS, ACCESSIBILITY_CHECK, DESIGN_REVIEW, UX_ISSUES] of
        Some a \<Rightarrow> Inr a
      | None \<Rightarrow> Inl (ValueError (NotAValidEnum s ''AnalysisType'')))"

text \<open>The result models. A bounding box, a language, the free-form attributes, the raw
  response and the interface-review fields are never set by the code and keep their
  defaults; they are left out.\<close>

record DetectedObject =
  name :: string
  confidence :: rat

record ExtractedText =
  content :: string
  text_confidence :: rat

record ImageMetadata =
  im_width :: int
  im_height :: int
  im_format :: string
  size_bytes :: "nat option"
  processing_time :: rat
  im_api_provider :: APIProvider

record ImageAnalysis =
  description :: "string option"
  objects :: "DetectedObject list"
  texts :: "ExtractedText list"
  metadata :: "ImageMetadata option"

record ProcessingResult =
  success :: bool
  provider :: APIProvider
  analysis :: "ImageAnalysis option"
  error :: "msg option"
  request_id :: "string option"
  timestamp :: rat

record BatchProcessingResult =
  total_images :: nat
  successful :: nat
  failed :: nat
  results :: "ProcessingResult list"
  batch_processing_time :: rat

record ServerConfig =
  default_api_provider :: APIProvider
  max_image_size_mb :: rat
  request_timeout :: int
  max_retries :: int
  rate_limit_per_minute :: int
  openai_api_key :: "string option"
  anthropic_api_key :: "string option"
  google_credentials_path :: "string option"
  azure_endpoint :: "string option"
  azure_api_key :: "string option"

text \<open>The truth value of an optional string: neither \<^verbatim>\<open>None\<close> nor empty.\<close>

fun truthy :: "string option \<Rightarrow> bool" where
  "truthy None = False"
| "truthy (Some s) = (s \<noteq> [])"

definition get_api_key :: "APIProvider \<Rightarrow> ServerConfig \<Rightarrow> string option \<Rightarrow> string option" where
  "get_api_key p config override_key =
     (if truthy override_key then override_key
      else case p of
             OPENAI \<Rightarrow> openai_api_key config
           | ANTHROPIC \<Rightarrow> anthropic_api_key config
           | GOOGLE \<Rightarrow> google_credentials_path config
           | AZURE \<Rightarrow> azure_api_key config)"

text \<open>The decimal literals \<^verbatim>\<open>0.7\<close> and \<^verbatim>\<open>0.8\<close>, and float subtraction.\<close>

definition lit_0_7 :: rat where
  "lit_0_7 = fl (7 / 10)"

definition lit_0_8 :: rat where
  "lit_0_8 = fl (8 / 10)"

definition py_fsub :: "rat \<Rightarrow> rat \<Rightarrow> rat" where
  "py_fsub x y = fl (x - y)"

text \<open>Validation of the fields of the two record models: a \<^verbatim>\<open>str\<close> field takes a JSON
  string only; the confidence takes a number (or what \<open>lax_float\<close> converts) between
  0 and 1.\<close>

definition validation_error :: error where
  "validation_error = OtherError (Text ''validation error'')"

definition str_field :: "json \<Rightarrow> error + string" where
  "str_field v = (case v of JStr s \<Rightarrow> Inr s | _ \<Rightarrow> Inl validation_error)"

definition confidence_field :: "'w env \<Rightarrow> json \<Rightarrow> error + rat" where
  "confidence_field E v =
     (case (case v of JNum r \<Rightarrow> Some r | _ \<Rightarrow> lax_float E v) of
        None \<Rightarrow> Inl validation_error
      | Some r \<Rightarrow> if 0 \<le> r \<and> r \<le> 1 then Inr r else Inl validation_error)"

text \<open>\<^verbatim>\<open>item.get("confidence", 0.8)\<close> passed to the confidence field.\<close>

definition confidence_of :: "'w env \<Rightarrow> (string \<times> json) list \<Rightarrow> error + rat" where
  "confidence_of E item =
     (case map_of item ''confidence'' of
        None \<Rightarrow> Inr lit_0_8
      | Some v \<Rightarrow> confidence_field E v)"

section \<open>api\_clients/base.py and api\_clients/openai\_client.py\<close>

record client =
  client_api_key :: string
  client_timeout :: int
  client_max_retries :: int

definition client_provider :: APIProvider where
  "client_provider = OPENAI"

definition client_max_image_size_mb :: rat where
  "client_max_image_size_mb = 20"

definition client_supported_formats :: "string list" where
  "client_supported_formats = [''JPEG'', ''PNG'', ''WebP'', ''GIF'']"

definition validate_image :: "image \<Rightarrow> error + unit" where
  "validate_image img =
     (let image_format =
            (case format img of
               Some f \<Rightarrow> f
             | None \<Rightarrow>
                 if has_getexif img \<or> mode img \<in> set [''RGB'', ''RGBA''] then ''JPEG''
                 else if mode img \<in> set [''P'', ''L''] then ''PNG''
                 else ''JPEG'')
      in if image_format \<notin> set client_supported_formats
         then Inl (ValueError (ClientUnsupportedFormat image_format))
         else
           let estimated_size_mb = py_truediv (width img * height img * 3) (1024 * 1024)
           in if estimated_size_mb > client_max_image_size_mb
              then Inl (ValueError (ImageTooLarge estimated_size_mb client_max_image_size_mb))
              else Inr ())"

text \<open>One attempt of \<^verbatim>\<open>_make_api_call\<close>: every failure, the two \<^verbatim>\<open>ValueError\<close>s raised
  inside the \<^verbatim>\<open>try\<close> included, leaves as a \<^verbatim>\<open>ValueError\<close>.\<close>

definition api_attempt :: "'w env \<Rightarrow> string \<Rightarrow> string \<Rightarrow> 'w \<Rightarrow> (error + string) \<times> 'w" where
  "api_attempt E instruction image_url w =
     (case chat_create E instruction image_url w of
        (ApiRateLimitError t, w1) \<Rightarrow> (Inl (ValueError (RateLimitExceeded t)), w1)
      | (ApiAuthenticationError t, w1) \<Rightarrow> (Inl (ValueError (AuthenticationFailed t)), w1)
      | (ApiError t, w1) \<Rightarrow> (Inl (ValueError (ApiErrorText t)), w1)
      | (ApiOtherError e, w1) \<Rightarrow> (Inl (ValueError (UnexpectedApiError (str_of e))), w1)
      | (ApiChoices [], w1) \<Rightarrow>
          (Inl (ValueError (UnexpectedApiError (Text ''No response from OpenAI API''))), w1)
      | (ApiChoices (Some c # _), w1) \<Rightarrow>
          (if c \<noteq> [] then (Inr c, w1)
           else (Inl (ValueError (UnexpectedApiError (Text ''Empty response from OpenAI API''))),
                 w1))
      | (ApiChoices (None # _), w1) \<Rightarrow>
          (Inl (ValueError (UnexpectedApiError (Text ''Empty response from OpenAI API''))), w1))"

text \<open>The retry decorator: three attempts, a wait of \<open>wait_exponential\<close> seconds after a
  failed attempt that is not the last, and the last attempt's exception re-raised.
  \<open>remaining\<close> counts the attempts still allowed after the current one.\<close>

definition wait_exponential :: "nat \<Rightarrow> rat" where
  "wait_exponential attempt_number = max 4 (min (2 ^ (attempt_number - 1)) 10)"

fun retry_api_call ::
  "'w env \<Rightarrow> nat \<Rightarrow> string \<Rightarrow> string \<Rightarrow> 'w \<Rightarrow> (error + string) \<times> 'w" where
  "retry_api_call E remaining instruction image_url w =
     (case api_attempt E instruction image_url w of
        (Inr response, w1) \<Rightarrow> (Inr response, w1)
      | (Inl e, w1) \<Rightarrow>
          (case remaining of
             0 \<Rightarrow> (Inl e, w1)
           | Suc k \<Rightarrow>
               retry_api_call E k instruction image_url
                 (sleep E (wait_exponential (3 - remaining)) w1)))"

definition make_api_call :: "'w env \<Rightarrow> string \<Rightarrow> string \<Rightarrow> 'w \<Rightarrow> (error + string) \<times> 'w" where
  "make_api_call E instruction image_url w = retry_api_call E 2 instruction image_url w"

text \<open>The common start of the four remote operations: validate, encode, call.\<close>

definition ask :: "'w env \<Rightarrow> image \<Rightarrow> string \<Rightarrow> 'w \<Rightarrow> (error + string) \<times> 'w" where
  "ask E img instruction w =
     (case validate_image img of
        Inl e \<Rightarrow> (Inl e, w)
      | Inr _ \<Rightarrow>
          (case image_to_base64 E img ''JPEG'' w of
             (Inl e, w1) \<Rightarrow> (Inl e, w1)
           | (Inr image_data, w1) \<Rightarrow> make_api_call E instruction image_data w1))"

definition describe_prompt :: string where
  "describe_prompt = ''Please provide a detailed description of this image. Focus on the main subjects, setting, colors, composition, and any notable details.''"

definition extract_text_prompt :: string where
  "extract_text_prompt = ''Please extract all visible text from this image. Return the results as a JSON array where each item has 'content' (the text) and 'confidence' (estimated confidence from 0.0 to 1.0). If no text is found, return an empty array.''"

definition detect_objects_prompt :: string where
  "detect_objects_prompt = ''Please identify and list all objects, people, animals, and significant items visible in this image. Return the results as a JSON array where each item has 'name' (object name) and 'confidence' (estimated confidence from 0.0 to 1.0). Focus on the most prominent and clearly visible objects.''"

definition describe_image :: "'w env \<Rightarrow> image \<Rightarrow> 'w \<Rightarrow> (error + string) \<times> 'w" where
  "describe_image E img w = ask E img describe_prompt w"

subsection \<open>Coercion of the text-extraction response\<close>

text \<open>The loop over the parsed list.\<close>

fun text_items :: "'w env \<Rightarrow> json list \<Rightarrow> ExtractedText list \<Rightarrow> error + ExtractedText list" where
  "text_items E [] extracted_texts = Inr extracted_texts"
| "text_items E (JDict item # rest) extracted_texts =
     (case map_of item ''content'' of
        Some v \<Rightarrow>
          (case str_field v of
             Inl e \<Rightarrow> Inl e
           | Inr c \<Rightarrow>
               (case confidence_of E item of
                  Inl e \<Rightarrow> Inl e
                | Inr k \<Rightarrow>
                    text_items E rest
                      (extracted_texts @ [\<lparr>content = c, text_confidence = k\<rparr>])))
      | None \<Rightarrow> text_items E rest extracted_texts)"
| "text_items E (JStr item # rest) extracted_texts =
     text_items E rest (extracted_texts @ [\<lparr>content = item, text_confidence = lit_0_8\<rparr>])"
| "text_items E (_ # rest) extracted_texts = text_items E rest extracted_texts"

text \<open>What \<^verbatim>\<open>extract_text\<close> does with the response of the remote call.\<close>

definition coerce_text :: "'w env \<Rightarrow> string \<Rightarrow> error + ExtractedText list" where
  "coerce_text E response =
     (case json_loads E response of
        None \<Rightarrow> Inr [\<lparr>content = response, text_confidence = lit_0_8\<rparr>]
      | Some (JList text_data) \<Rightarrow> text_items E text_data []
      | Some _ \<Rightarrow> Inr [\<lparr>content = response, text_confidence = lit_0_8\<rparr>])"

definition extract_text :: "'w env \<Rightarrow> image \<Rightarrow> 'w \<Rightarrow> (error + ExtractedText list) \<times> 'w" where
  "extract_text E img w =
     (case ask E img extract_text_prompt w of
        (Inl e, w1) \<Rightarrow> (Inl e, w1)
      | (Inr response, w1) \<Rightarrow> (coerce_text E response, w1))"

subsection \<open>Coercion of the object-detection response\<close>

text \<open>\<^verbatim>\<open>re.sub(r"^(p1|p2|...)", "", s, flags=re.IGNORECASE)\<close>: the first alternative that
  matches at the start is removed.\<close>

definition strip_lead_in :: "string list \<Rightarrow> string \<Rightarrow> string" where
  "strip_lead_in alternatives s =
     (case find (\<lambda>p. iprefix p s) alternatives of
        None \<Rightarrow> s
      | Some p \<Rightarrow> drop (length p) s)"

text \<open>\<^verbatim>\<open>re.sub(r"^(p1|p2|...)\s+", "", s, flags=re.IGNORECASE)\<close>: an alternative matches when
  white space follows it, and the whole run of white space goes with it.\<close>

definition followed_by_space :: "string \<Rightarrow> string \<Rightarrow> bool" where
  "followed_by_space p s =
     (iprefix p s \<and> (case drop (length p) s of [] \<Rightarrow> False | c # _ \<Rightarrow> py_isspace c))"

definition strip_article :: "string list \<Rightarrow> string \<Rightarrow> string" where
  "strip_article alternatives s =
     (case find (\<lambda>p. followed_by_space p s) alternatives of
        None \<Rightarrow> s
      | Some p \<Rightarrow> dropWhile py_isspace (drop (length p) s))"

definition lead_ins :: "string list" where
  "lead_ins = [''I can see'', ''In this image'', ''The image shows'', ''This image contains'']"

definition articles :: "string list" where
  "articles = [''a'', ''an'', ''the'', ''some'', ''several'', ''many'', ''few'']"

text \<open>The loop of \<^verbatim>\<open>_extract_objects_from_text\<close> over the pieces of the split.\<close>

fun object_pieces :: "string list \<Rightarrow> DetectedObject list \<Rightarrow> DetectedObject list" where
  "object_pieces [] detected_objects = detected_objects"
| "object_pieces (piece # rest) detected_objects =
     (let obj = py_strip piece
      in if obj \<noteq> [] \<and> length obj > 2 then
           (let obj' = strip_article articles obj
            in if obj' \<noteq> []
               then object_pieces rest (detected_objects @ [\<lparr>name = obj', confidence = lit_0_7\<rparr>])
               else object_pieces rest detected_objects)
         else object_pieces rest detected_objects)"

definition extract_objects_from_text :: "string \<Rightarrow> DetectedObject list" where
  "extract_objects_from_text t =
     (let t' = strip_lead_in lead_ins t;
          pieces = re_split_class (\<lambda>c. c \<in> set [CHR '','', CHR '';'', CHR ''.'', CHR 0x0A]) t'
      in take 10 (object_pieces pieces []))"

fun object_items ::
  "'w env \<Rightarrow> json list \<Rightarrow> DetectedObject list \<Rightarrow> error + DetectedObject list" where
  "object_items E [] detected_objects = Inr detected_objects"
| "object_items E (JDict item # rest) detected_objects =
     (case map_of item ''name'' of
        Some v \<Rightarrow>
          (case str_field v of
             Inl e \<Rightarrow> Inl e
           | Inr n \<Rightarrow>
               (case confidence_of E item of
                  Inl e \<Rightarrow> Inl e
                | Inr k \<Rightarrow>
                    object_items E rest (detected_objects @ [\<lparr>name = n, confidence = k\<rparr>])))
      | None \<Rightarrow> object_items E rest detected_objects)"
| "object_items E (JStr item # rest) detected_objects =
     object_items E rest (detected_objects @ [\<lparr>name = item, confidence = lit_0_8\<rparr>])"
| "object_items E (_ # rest) detected_objects = object_items E rest detected_objects"

text \<open>What \<^verbatim>\<open>detect_objects\<close> does with the response of the remote call.\<close>

definition coerce_objects :: "'w env \<Rightarrow> string \<Rightarrow> error + DetectedObject list" where
  "coerce_objects E response =
     (case json_loads E response of
        None \<Rightarrow> Inr (extract_objects_from_text response)
      | Some (JList objects_data) \<Rightarrow> object_items E objects_data []
      | Some _ \<Rightarrow> Inr (extract_objects_from_text response))"

definition detect_objects :: "'w env \<Rightarrow> image \<Rightarrow> 'w \<Rightarrow> (error + DetectedObject list) \<times> 'w" where
  "detect_objects E img w =
     (case ask E img detect_objects_prompt w of
        (Inl e, w1) \<Rightarrow> (Inl e, w1)
      | (Inr response, w1) \<Rightarrow> (coerce_objects E response, w1))"

subsection \<open>Analysis and the result envelope\<close>

definition empty_analysis :: ImageAnalysis where
  "empty_analysis = \<lparr>description = None, objects = [], texts = [], metadata = None\<rparr>"

definition analyze_image ::
  "'w env \<Rightarrow> image \<Rightarrow> AnalysisType \<Rightarrow> 'w \<Rightarrow> (error + ImageAnalysis) \<times> 'w" where
  "analyze_image E img analysis_type w =
     (case validate_image img of
        Inl e \<Rightarrow> (Inl e, w)
      | Inr _ \<Rightarrow>
          (case (if analysis_type \<in> set [DESCRIPTION, COMPREHENSIVE]
                 then (case describe_image E img w of
                         (Inl e, w1) \<Rightarrow> (Inl e, w1)
                       | (Inr d, w1) \<Rightarrow> (Inr (empty_analysis\<lparr>description := Some d\<rparr>), w1))
                 else (Inr empty_analysis, w)) of
             (Inl e, w1) \<Rightarrow> (Inl e, w1)
           | (Inr a1, w1) \<Rightarrow>
               (case (if analysis_type \<in> set [TEXT, COMPREHENSIVE]
                      then (case extract_text E img w1 of
                              (Inl e, w2) \<Rightarrow> (Inl e, w2)
                            | (Inr t, w2) \<Rightarrow> (Inr (a1\<lparr>texts := t\<rparr>), w2))
                      else (Inr a1, w1)) of
                  (Inl e, w2) \<Rightarrow> (Inl e, w2)
                | (Inr a2, w2) \<Rightarrow>
                    (if analysis_type \<in> set [OBJECTS, COMPREHENSIVE]
                     then (case detect_objects E img w2 of
                             (Inl e, w3) \<Rightarrow> (Inl e, w3)
                           | (Inr os, w3) \<Rightarrow> (Inr (a2\<lparr>objects := os\<rparr>), w3))
                     else (Inr a2, w2)))))"

text \<open>\<^verbatim>\<open>ImageMetadata(width=..., height=..., format=..., size_bytes=..., ...)\<close> from the
  metadata dictionary; a missing format tag fails the model's validation.\<close>

definition make_metadata :: "metadata \<Rightarrow> rat \<Rightarrow> error + ImageMetadata" where
  "make_metadata image_metadata t =
     (case md_format image_metadata of
        None \<Rightarrow> Inl validation_error
      | Some f \<Rightarrow>
          Inr \<lparr>im_width = md_width image_metadata, im_height = md_height image_metadata,
               im_format = f, size_bytes = Some (md_size_bytes image_metadata),
               processing_time = t, im_api_provider = client_provider\<rparr>)"

definition failure_result :: "APIProvider \<Rightarrow> msg \<Rightarrow> string \<Rightarrow> rat \<Rightarrow> ProcessingResult" where
  "failure_result p m rid t =
     \<lparr>success = False, provider = p, analysis = None, error = Some m,
      request_id = Some rid, timestamp = t\<rparr>"

definition success_result ::
  "APIProvider \<Rightarrow> ImageAnalysis \<Rightarrow> string \<Rightarrow> rat \<Rightarrow> ProcessingResult" where
  "success_result p a rid t =
     \<lparr>success = True, provider = p, analysis = Some a, error = None,
      request_id = Some rid, timestamp = t\<rparr>"

text \<open>\<^verbatim>\<open>BaseImageClient.process_image\<close>; the \<^verbatim>\<open>except\<close> branch reads the clock twice, for
  the unused processing time and for the time stamp.\<close>

definition client_failure :: "'w env \<Rightarrow> error \<Rightarrow> string \<Rightarrow> 'w \<Rightarrow> ProcessingResult \<times> 'w" where
  "client_failure E e rid w =
     (let (t1, w1) = time_time E w; (t2, w2) = time_time E w1
      in (failure_result client_provider (str_of e) rid t2, w2))"

definition client_process_image ::
  "'w env \<Rightarrow> image \<Rightarrow> metadata \<Rightarrow> AnalysisType \<Rightarrow> 'w \<Rightarrow> ProcessingResult \<times> 'w" where
  "client_process_image E img image_metadata analysis_type w =
     (let (start_time, w1) = time_time E w; (rid, w2) = uuid4 E w1
      in case make_metadata image_metadata 0 of
           Inl e \<Rightarrow> client_failure E e rid w2
         | Inr m \<Rightarrow>
             (case analyze_image E img analysis_type w2 of
                (Inl e, w3) \<Rightarrow> client_failure E e rid w3
              | (Inr a, w3) \<Rightarrow>
                  (let (t1, w4) = time_time E w3;
                       m' = m\<lparr>processing_time := py_fsub t1 start_time\<rparr>;
                       (t2, w5) = time_time E w4
                   in (success_result client_provider (a\<lparr>metadata := Some m'\<rparr>) rid t2, w5))))"

definition analyze_with_custom_prompt ::
  "'w env \<Rightarrow> image \<Rightarrow> metadata \<Rightarrow> string \<Rightarrow> 'w \<Rightarrow> ProcessingResult \<times> 'w" where
  "analyze_with_custom_prompt E img image_metadata custom_prompt w =
     (let (start_time, w1) = time_time E w; (rid, w2) = uuid4 E w1
      in case ask E img custom_prompt w2 of
           (Inl e, w3) \<Rightarrow> client_failure E e rid w3
         | (Inr response, w3) \<Rightarrow>
             (let (t1, w4) = time_time E w3
              in case make_metadata image_metadata (py_fsub t1 start_time) of
                   Inl e \<Rightarrow> client_failure E e rid w4
                 | Inr m \<Rightarrow>
                     (let (t2, w5) = time_time E w4
                      in (success_result client_provider
                            \<lparr>description = Some response, objects = [], texts = [],
                             metadata = Some m\<rparr> rid t2, w5))))"

section \<open>server.py\<close>

text \<open>\<^verbatim>\<open>x or default\<close> on an optional string.\<close>

fun or_else :: "string option \<Rightarrow> string \<Rightarrow> string" where
  "or_else None d = d"
| "or_else (Some s) d = (if s = [] then d else s)"

definition create_api_client :: "ServerConfig \<Rightarrow> APIProvider \<Rightarrow> string \<Rightarrow> error + client" where
  "create_api_client config p api_key =
     (if p = OPENAI
      then Inr \<lparr>client_api_key = api_key, client_timeout = request_timeout config,
                client_max_retries = max_retries config\<rparr>
      else Inl (ValueError (UnsupportedProvider (provider_value p))))"

text \<open>The provider, the analysis type and the key, as both tools resolve them at the
  start of their \<^verbatim>\<open>try\<close> block.\<close>

definition resolve_request ::
  "ServerConfig \<Rightarrow> string option \<Rightarrow> string option \<Rightarrow> string option
     \<Rightarrow> error + APIProvider \<times> AnalysisType \<times> string" where
  "resolve_request config api_provider api_key analysis_type =
     (case to_APIProvider (or_else api_provider (provider_value (default_api_provider config))) of
        Inl e \<Rightarrow> Inl e
      | Inr p \<Rightarrow>
          (case to_AnalysisType (or_else analysis_type (analysis_value COMPREHENSIVE)) of
             Inl e \<Rightarrow> Inl e
           | Inr a \<Rightarrow>
               (case get_api_key p config api_key of
                  None \<Rightarrow> Inl (ValueError (NoApiKey (provider_value p)))
                | Some k \<Rightarrow>
                    if k = [] then Inl (ValueError (NoApiKey (provider_value p)))
                    else Inr (p, a, k))))"

text \<open>Loading and validating one image, then the call of the client: the statements both
  tools run for an image once a client exists.\<close>

definition load_and_validate ::
  "'w env \<Rightarrow> ServerConfig \<Rightarrow> string \<Rightarrow> 'w \<Rightarrow> (error + image \<times> metadata) \<times> 'w" where
  "load_and_validate E config image_source w =
     (case load_image_data E image_source (request_timeout config) w of
        (Inl e, w1) \<Rightarrow> (Inl e, w1)
      | (Inr (image_data, _), w1) \<Rightarrow>
          validate_and_process_image E image_data (max_image_size_mb config) True w1)"

definition run_client ::
  "'w env \<Rightarrow> string option \<Rightarrow> AnalysisType \<Rightarrow> image \<Rightarrow> metadata \<Rightarrow> 'w
     \<Rightarrow> ProcessingResult \<times> 'w" where
  "run_client E prompt a img md w =
     (case prompt of
        Some p \<Rightarrow>
          if p \<noteq> [] then analyze_with_custom_prompt E img md p w
          else client_process_image E img md a w
      | None \<Rightarrow> client_process_image E img md a w)"

text \<open>The \<^verbatim>\<open>try\<close> block of the tool \<^verbatim>\<open>process_image\<close>.\<close>

definition process_image_try ::
  "'w env \<Rightarrow> ServerConfig \<Rightarrow> string \<Rightarrow> string option \<Rightarrow> string option \<Rightarrow> string option
     \<Rightarrow> string option \<Rightarrow> 'w \<Rightarrow> (error + ProcessingResult) \<times> 'w" where
  "process_image_try E config image_source api_provider api_key analysis_type prompt w =
     (case resolve_request config api_provider api_key analysis_type of
        Inl e \<Rightarrow> (Inl e, w)
      | Inr (p, a, effective_api_key) \<Rightarrow>
          (case load_and_validate E config image_source w of
             (Inl e, w1) \<Rightarrow> (Inl e, w1)
           | (Inr (img, md), w1) \<Rightarrow>
               (case create_api_client config p effective_api_key of
                  Inl e \<Rightarrow> (Inl e, w1)
                | Inr c \<Rightarrow>
                    (case run_client E prompt a img md w1 of
                       (result, w2) \<Rightarrow> (Inr result, w2)))))"

text \<open>The message the two \<^verbatim>\<open>except\<close> clauses of \<^verbatim>\<open>process_image\<close> put in the envelope.\<close>

fun handler_message :: "error \<Rightarrow> msg" where
  "handler_message (ImageLoadError m) = m"
| "handler_message (ImageValidationError m) = m"
| "handler_message e = UnexpectedError (str_of e)"

text \<open>The tool \<^verbatim>\<open>process_image\<close>. \<open>Inl\<close> is an exception that leaves the function: the
  handlers evaluate \<^verbatim>\<open>APIProvider(api_provider or ...)\<close> again while they build the
  envelope.\<close>

definition process_image ::
  "'w env \<Rightarrow> ServerConfig \<Rightarrow> string \<Rightarrow> string option \<Rightarrow> string option \<Rightarrow> string option
     \<Rightarrow> string option \<Rightarrow> 'w \<Rightarrow> (error + ProcessingResult) \<times> 'w" where
  "process_image E config image_source api_provider api_key analysis_type prompt w =
     (let (rid, w0) = uuid4 E w
      in case process_image_try E config image_source api_provider api_key analysis_type
                prompt w0 of
           (Inr result, w1) \<Rightarrow> (Inr result, w1)
         | (Inl e, w1) \<Rightarrow>
             (case to_APIProvider
                     (or_else api_provider (provider_value (default_api_provider config))) of
                Inl e' \<Rightarrow> (Inl e', w1)
              | Inr p \<Rightarrow>
                  (let (t, w2) = time_time E w1
                   in (Inr (failure_result p (handler_message e) rid t), w2))))"

text \<open>One iteration of the batch loop: the envelope appended for this source.\<close>

definition batch_item ::
  "'w env \<Rightarrow> ServerConfig \<Rightarrow> APIProvider \<Rightarrow> AnalysisType \<Rightarrow> string option \<Rightarrow> string \<Rightarrow> 'w
     \<Rightarrow> ProcessingResult \<times> 'w" where
  "batch_item E config p a prompt image_source w =
     (case load_and_validate E config image_source w of
        (Inl e, w1) \<Rightarrow>
          (let (rid, w2) = uuid4 E w1; (t, w3) = time_time E w2
           in (failure_result p (str_of e) rid t, w3))
      | (Inr (img, md), w1) \<Rightarrow> run_client E prompt a img md w1)"

text \<open>The loop, with the three variables it updates.\<close>

fun batch_loop ::
  "'w env \<Rightarrow> ServerConfig \<Rightarrow> APIProvider \<Rightarrow> AnalysisType \<Rightarrow> string option \<Rightarrow> string list
     \<Rightarrow> ProcessingResult list \<times> nat \<times> nat \<Rightarrow> 'w
     \<Rightarrow> (ProcessingResult list \<times> nat \<times> nat) \<times> 'w" where
  "batch_loop E config p a prompt [] acc w = (acc, w)"
| "batch_loop E config p a prompt (image_source # rest) (rs, ok, bad) w =
     (case batch_item E config p a prompt image_source w of
        (result, w1) \<Rightarrow>
          batch_loop E config p a prompt rest
            (rs @ [result],
             if success result then ok + 1 else ok,
             if success result then bad else bad + 1) w1)"

text \<open>The statements of \<^verbatim>\<open>analyze_image_batch\<close> before the loop: provider, analysis type
  and key are resolved and the client is created, once for the whole batch.\<close>

definition batch_setup ::
  "ServerConfig \<Rightarrow> string option \<Rightarrow> string option \<Rightarrow> string option
     \<Rightarrow> error + APIProvider \<times> AnalysisType" where
  "batch_setup config api_provider api_key analysis_type =
     (case resolve_request config api_provider api_key analysis_type of
        Inl e \<Rightarrow> Inl e
      | Inr (p, a, effective_api_key) \<Rightarrow>
          (case create_api_client config p effective_api_key of
             Inl e \<Rightarrow> Inl e
           | Inr c \<Rightarrow> Inr (p, a)))"

definition analyze_image_batch ::
  "'w env \<Rightarrow> ServerConfig \<Rightarrow> string list \<Rightarrow> string option \<Rightarrow> string option \<Rightarrow> string option
     \<Rightarrow> string option \<Rightarrow> 'w \<Rightarrow> BatchProcessingResult \<times> 'w" where
  "analyze_image_batch E config image_sources api_provider api_key analysis_type prompt w =
     (let (start_time, w0) = time_time E w
      in case batch_setup config api_provider api_key analysis_type of
           Inr (p, a) \<Rightarrow>
             (case batch_loop E config p a prompt image_sources ([], 0, 0) w0 of
                ((rs, ok, bad), w1) \<Rightarrow>
                  (let (t, w2) = time_time E w1
                   in (\<lparr>total_images = length image_sources, successful = ok, failed = bad,
                        results = rs, batch_processing_time = py_fsub t start_time\<rparr>, w2)))
         | Inl e \<Rightarrow>
             (let (t, w1) = time_time E w0
              in (\<lparr>total_images = length image_sources, successful = 0,
                   failed = length image_sources, results = [],
                   batch_processing_time = py_fsub t start_time\<rparr>, w1)))"

section \<open>Reference values\<close>

text \<open>The three kinds of source, and the branch \<^verbatim>\<open>load_image_data\<close> takes for a string:
  the URL test first, then the inline-data test, else a file path.\<close>

datatype source_kind = Url | InlineData | FilePath

definition classify_source :: "'w env \<Rightarrow> string \<Rightarrow> source_kind" where
  "classify_source E source =
     (if is_url E source then Url
      else if is_base64_image source then InlineData
      else FilePath)"

text \<open>The defaults of \<^verbatim>\<open>ServerConfig\<close>: no credential is configured.\<close>

definition default_config :: ServerConfig where
  "default_config =
     \<lparr>default_api_provider = OPENAI, max_image_size_mb = 10, request_timeout = 30,
      max_retries = 3, rate_limit_per_minute = 60, openai_api_key = None,
      anthropic_api_key = None, google_credentials_path = None, azure_endpoint = None,
      azure_api_key = None\<rparr>"

text \<open>An environment in which nothing outside the process answers: no string parses as
  a URL or as JSON, no file exists, no buffer decodes, the remote API is unreachable.
  Its world is the number of operations performed so far, so an unchanged world means
  that no operation ran.\<close>

definition offline_env :: "nat env" where
  "offline_env =
     \<lparr>urlparse = (\<lambda>s. None),
      json_loads = (\<lambda>s. None),
      lax_float = (\<lambda>v. None),
      uuid4 = (\<lambda>w. (''00000000-0000-4000-8000-000000000000'', Suc w)),
      time_time = (\<lambda>w. (of_nat w, Suc w)),
      sleep = (\<lambda>s w. Suc w),
      http_get = (\<lambda>url timeout w. (HttpRequestError ''offline'', Suc w)),
      path_exists = (\<lambda>path w. (Inr False, Suc w)),
      path_is_file = (\<lambda>path w. (Inr False, Suc w)),
      read_bytes = (\<lambda>path w. (Inl (OtherError (Text ''No such file or directory'')), Suc w)),
      image_open = (\<lambda>d w. (Inl (OtherError (Text ''cannot identify image file'')), Suc w)),
      image_to_base64 = (\<lambda>img f w. (Inr ''data:image/jpeg;base64,'', Suc w)),
      chat_create = (\<lambda>i u w. (ApiOtherError (OtherError (Text ''Connection error.'')), Suc w))\<rparr>"

text \<open>The structured tier in the specification's words: an element that is an object
  with the expected key gives a record (confidence 0.8 when the object has none), a
  bare string gives a record with confidence 0.8, any other element gives nothing.
  Building a record can fail in the model's validation.\<close>

definition object_of_item :: "'w env \<Rightarrow> json \<Rightarrow> (error + DetectedObject) option" where
  "object_of_item E item =
     (case item of
        JDict kvs \<Rightarrow>
          (case map_of kvs ''name'' of
             None \<Rightarrow> None
           | Some v \<Rightarrow>
               Some (case str_field v of
                       Inl e \<Rightarrow> Inl e
                     | Inr n \<Rightarrow>
                         (case confidence_of E kvs of
                            Inl e \<Rightarrow> Inl e
                          | Inr k \<Rightarrow> Inr \<lparr>name = n, confidence = k\<rparr>)))
      | JStr s \<Rightarrow> Some (Inr \<lparr>name = s, confidence = lit_0_8\<rparr>)
      | _ \<Rightarrow> None)"

definition text_of_item :: "'w env \<Rightarrow> json \<Rightarrow> (error + ExtractedText) option" where
  "text_of_item E item =
     (case item of
        JDict kvs \<Rightarrow>
          (case map_of kvs ''content'' of
             None \<Rightarrow> None
           | Some v \<Rightarrow>
               Some (case str_field v of
                       Inl e \<Rightarrow> Inl e
                     | Inr c \<Rightarrow>
                         (case confidence_of E kvs of
                            Inl e \<Rightarrow> Inl e
                          | Inr k \<Rightarrow> Inr \<lparr>content = c, text_confidence = k\<rparr>)))
      | JStr s \<Rightarrow> Some (Inr \<lparr>content = s, text_confidence = lit_0_8\<rparr>)
      | _ \<Rightarrow> None)"

text \<open>The records of a list of elements, in order; the first failure is the result.\<close>

fun collect :: "(error + 'a) option list \<Rightarrow> error + 'a list" where
  "collect [] = Inr []"
| "collect (None # xs) = collect xs"
| "collect (Some (Inl e) # xs) = Inl e"
| "collect (Some (Inr x) # xs) = (case collect xs of Inl e \<Rightarrow> Inl e | Inr ys \<Rightarrow> Inr (x # ys))"

text \<open>The heuristic tier in the specification's words: strip the lead-in, split on
  comma, semicolon, period and newline, trim, drop fragments shorter than three
  characters, strip a leading article, give confidence 0.7, keep the first ten.\<close>

definition heuristic_objects :: "string \<Rightarrow> DetectedObject list" where
  "heuristic_objects t =
     take 10
       [\<lparr>name = strip_article articles f, confidence = lit_0_7\<rparr>.
          f \<leftarrow> map py_strip
                (re_split_class (\<lambda>c. c \<in> set [CHR '','', CHR '';'', CHR ''.'', CHR 0x0A])
                   (strip_lead_in lead_ins t)),
          3 \<le> length f, strip_article articles f \<noteq> []]"

text \<open>The two responses of the specification's examples.\<close>

definition cat_response :: string where
  \<open>cat_response = ''[{"name":"cat","confidence":0.9}]''\<close>

definition dog_response :: string where
  "dog_response = ''I can see a dog, a ball, and a tree.''"

text \<open>The envelopes of a list of sources in input order, each produced in the world the
  sources before it have left.\<close>

fun envelopes ::
  "'w env \<Rightarrow> ServerConfig \<Rightarrow> APIProvider \<Rightarrow> AnalysisType \<Rightarrow> string option \<Rightarrow> string list \<Rightarrow> 'w
     \<Rightarrow> ProcessingResult list" where
  "envelopes E config p a prompt [] w = []"
| "envelopes E config p a prompt (image_source # rest) w =
     (case batch_item E config p a prompt image_source w of
        (result, w1) \<Rightarrow> result # envelopes E config p a prompt rest w1)"

section \<open>Auxiliary facts\<close>

lemma re_split_class_nonempty: "re_split_class sep s \<noteq> []"
  by (induction s) (auto split: list.splits)

lemma re_split_class_first_prefix: "re_split_class sep s = q # qs \<Longrightarrow> prefix q s"
  by (induction s arbitrary: q qs) (auto split: list.splits if_splits)

lemma re_split_class_sublist: "p \<in> set (re_split_class sep s) \<Longrightarrow> sublist p s"
proof (induction s arbitrary: p)
  case Nil
  then show ?case by simp
next
  case (Cons c cs)
  obtain q qs where q: "re_split_class sep cs = q # qs"
    using re_split_class_nonempty[of sep cs] by (cases "re_split_class sep cs") auto
  have pq: "prefix q cs" using re_split_class_first_prefix[OF q] .
  show ?case
  proof (cases "sep c")
    case True
    with Cons.prems q have "p = [] \<or> p \<in> set (re_split_class sep cs)" by auto
    then show ?thesis using Cons.IH by (auto simp: sublist_Cons_right)
  next
    case False
    with Cons.prems q have "p = c # q \<or> p \<in> set (re_split_class sep cs)" by auto
    then show ?thesis
    proof
      assume "p = c # q"
      then have "prefix p (c # cs)" using pq by simp
      then show ?thesis by (simp add: sublist_Cons_right)
    next
      assume "p \<in> set (re_split_class sep cs)"
      then show ?thesis using Cons.IH by (auto simp: sublist_Cons_right)
    qed
  qed
qed

subsection \<open>Rounding is exact on values that fit 53 bits\<close>

lemma pow2_powi: "pow2 e = 2 powi e"
  by (simp add: pow2_def power_int_def field_simps)

lemma pow2_pos: "0 < pow2 e"
  by (simp add: pow2_def)

lemma pow2_add: "pow2 (a + b) = pow2 a * pow2 b"
  by (simp add: pow2_powi power_int_add)

lemma pow2_nat: "0 \<le> e \<Longrightarrow> pow2 e = of_int (2 ^ nat e)"
  by (simp add: pow2_def)

lemma pow2_less_imp: "pow2 a < pow2 b \<Longrightarrow> a < b"
proof (rule ccontr)
  assume l: "pow2 a < pow2 b" and "\<not> a < b"
  then have "b \<le> a" by simp
  then have "pow2 b \<le> pow2 a"
    unfolding pow2_powi by (intro power_int_increasing) auto
  with l show False by simp
qed

lemma ilog2_lower:
  assumes "0 < x"
  shows "pow2 (ilog2 x) \<le> x"
proof -
  obtain p q where pq: "quotient_of x = (p, q)" by (cases "quotient_of x")
  have q: "0 < q" using quotient_of_denom_pos[OF pq] .
  have x: "x = of_int p / of_int q" using quotient_of_div[OF pq] .
  have p: "0 < p"
  proof (rule ccontr)
    assume "\<not> 0 < p"
    then have "of_int p \<le> (0::rat)" by simp
    then have "x \<le> 0" using q x by (simp add: divide_nonpos_pos)
    with assms show False by simp
  qed
  define k where "k = bitlen p - bitlen q"
  have il: "ilog2 x = (if pow2 k \<le> x then k else k - 1)"
    by (simp add: ilog2_def pq k_def Let_def)
  show ?thesis
  proof (cases "pow2 k \<le> x")
    case True
    then show ?thesis by (simp add: il)
  next
    case False
    have bp: "1 \<le> bitlen p" using p by (simp add: bitlen_alt_def)
    have lp: "(2::int) ^ nat (bitlen p - 1) \<le> p" using bitlen_bounds[OF p] by simp
    have uq: "q < 2 ^ nat (bitlen q)" using bitlen_bounds[OF q] by simp
    have lp': "pow2 (bitlen p - 1) \<le> of_int p"
    proof -
      have "of_int ((2::int) ^ nat (bitlen p - 1)) \<le> (of_int p :: rat)"
        using lp by (simp only: of_int_le_iff)
      then show ?thesis using bp by (simp add: pow2_nat)
    qed
    have uq': "of_int q \<le> pow2 (bitlen q)"
    proof -
      have "q \<le> 2 ^ nat (bitlen q)" using uq by simp
      then have "(of_int q :: rat) \<le> of_int ((2::int) ^ nat (bitlen q))"
        by (simp only: of_int_le_iff)
      then show ?thesis using bitlen_nonneg[of q] by (simp add: pow2_nat)
    qed
    have "k - 1 = (bitlen p - 1) - bitlen q" by (simp add: k_def)
    then have "pow2 (k - 1) = pow2 ((bitlen p - 1) - bitlen q)" by (rule arg_cong)
    also have "\<dots> = pow2 (bitlen p - 1) / pow2 (bitlen q)"
      unfolding pow2_powi by (rule power_int_diff) simp
    also have "\<dots> \<le> of_int p / of_int q"
      using lp' uq' q pow2_pos[of "bitlen q"] pow2_pos[of "bitlen p - 1"]
      by (intro frac_le) auto
    finally have "pow2 (k - 1) \<le> x" by (simp only: x)
    then show ?thesis using False by (simp add: il)
  qed
qed

lemma round_half_even_of_int: "round_half_even (of_int m) = m"
  by (simp add: round_half_even_def)

lemma fl_exact:
  assumes m: "0 < m" "m < 2 ^ 53" and e: "- 1074 \<le> e'"
  shows "fl (of_int m * pow2 e') = of_int m * pow2 e'"
proof -
  define x where "x = (of_int m :: rat) * pow2 e'"
  have xpos: "0 < x" using m pow2_pos by (simp add: x_def)
  define K where "K = ilog2 x"
  have "pow2 K \<le> x" unfolding K_def using ilog2_lower[OF xpos] .
  also have "x < of_int (2 ^ 53) * pow2 e'"
    unfolding x_def using m(2) pow2_pos[of e']
    by (simp only: mult_less_cancel_right_pos of_int_less_iff)
  also have "\<dots> = pow2 (53 + e')"
  proof -
    have "pow2 53 = of_int (2 ^ 53)" by (simp add: pow2_def)
    then show ?thesis by (simp only: pow2_add)
  qed
  finally have "K < 53 + e'" by (rule pow2_less_imp)
  define e where "e = max (K - 52) (- 1074)"
  have ee: "e \<le> e'" using \<open>K < 53 + e'\<close> e by (simp add: e_def)
  define d where "d = nat (e' - e)"
  have "pow2 e' = pow2 (e + int d)" using ee by (simp add: d_def)
  then have pe: "pow2 e' = pow2 e * of_int (2 ^ d)"
    by (simp add: pow2_add pow2_nat)
  have "x / pow2 e = of_int (m * 2 ^ d)"
    using pow2_pos[of e] by (simp add: x_def pe)
  then have r: "round_half_even (x / pow2 e) = m * 2 ^ d"
    by (simp only: round_half_even_of_int)
  have "fl x = sgn x * of_int (round_half_even (\<bar>x\<bar> / pow2 e)) * pow2 e"
    using xpos by (simp add: fl_def Let_def e_def K_def)
  also have "\<dots> = of_int (m * 2 ^ d) * pow2 e"
    using xpos r by simp
  also have "\<dots> = x" by (simp add: x_def pe)
  finally show ?thesis by (simp add: x_def)
qed

lemma size_mb_exact:
  assumes "n < 2 ^ 53"
  shows "py_truediv (int n) (1024 * 1024) = of_nat n / 1048576"
proof (cases "n = 0")
  case True
  then show ?thesis by (simp add: py_truediv_def fl_def)
next
  case False
  have p: "pow2 (- 20) = 1 / 1048576" by (simp add: pow2_def)
  have "0 < int n" "int n < 2 ^ 53" using False assms by auto
  then have "fl (of_int (int n) * pow2 (- 20)) = of_int (int n) * pow2 (- 20)"
    by (intro fl_exact) auto
  then show ?thesis by (simp add: py_truediv_def p)
qed

subsection \<open>Strict base64 decoding\<close>

lemma a2b_scan_bad_char:
  "c \<in> set cs \<Longrightarrow> c \<noteq> CHR ''='' \<Longrightarrow> b64_value c = None \<Longrightarrow>
     a2b_scan quad_pos leftchar pads padding_started out cs = None"
proof (induction cs arbitrary: quad_pos leftchar pads padding_started out)
  case Nil
  then show ?case by simp
next
  case (Cons d ds)
  show ?case
  proof (cases "d = c")
    case True
    with Cons.prems show ?thesis by simp
  next
    case False
    with Cons.prems have "c \<in> set ds" by simp
    then have ne: "ds \<noteq> []" by auto
    have ih: "\<And>q l p s out. a2b_scan q l p s out ds = None"
      using Cons.IH[OF \<open>c \<in> set ds\<close> Cons.prems(2,3)] .
    show ?thesis
      by (simp add: ih ne split: option.splits)
  qed
qed

lemma b64decode_bad_char:
  "c \<in> set s \<Longrightarrow> c \<noteq> CHR ''='' \<Longrightarrow> b64_value c = None \<Longrightarrow> b64decode s = None"
  by (simp add: b64decode_def a2b_scan_bad_char)

lemma after_first_comma_split:
  "CHR '','' \<notin> set a \<Longrightarrow> after_first_comma (a @ CHR '','' # b) = b"
  by (induction a) auto

subsection \<open>The coercion loops and the batch loop\<close>

lemma object_items_collect:
  "object_items E items acc =
     (case collect (map (object_of_item E) items) of Inl e \<Rightarrow> Inl e | Inr ys \<Rightarrow> Inr (acc @ ys))"
  by (induction E items acc rule: object_items.induct)
     (auto simp: object_of_item_def split: sum.splits option.splits)

lemma text_items_collect:
  "text_items E items acc =
     (case collect (map (text_of_item E) items) of Inl e \<Rightarrow> Inl e | Inr ys \<Rightarrow> Inr (acc @ ys))"
  by (induction E items acc rule: text_items.induct)
     (auto simp: text_of_item_def split: sum.splits option.splits)

lemma object_pieces_spec:
  "object_pieces pieces acc =
     acc @ [\<lparr>name = strip_article articles f, confidence = lit_0_7\<rparr>.
              f \<leftarrow> map py_strip pieces, 3 \<le> length f, strip_article articles f \<noteq> []]"
  by (induction pieces arbitrary: acc) (auto simp: Let_def)

lemma extract_objects_heuristic: "extract_objects_from_text t = heuristic_objects t"
  by (simp add: extract_objects_from_text_def heuristic_objects_def object_pieces_spec Let_def)

lemma heuristic_confidence:
  "o' \<in> set (extract_objects_from_text t) \<Longrightarrow> confidence o' = lit_0_7 \<and> name o' \<noteq> []"
  unfolding extract_objects_heuristic heuristic_objects_def
  by (auto dest!: in_set_takeD)

lemma collect_case_id: "(case c of Inl e \<Rightarrow> Inl e | Inr ys \<Rightarrow> Inr ([] @ ys)) = c"
  by (cases c) auto

lemma batch_loop_envelopes:
  "fst (batch_loop E config p a prompt srcs (rs, ok, bad) w) =
     (rs @ envelopes E config p a prompt srcs w,
      ok + length (filter success (envelopes E config p a prompt srcs w)),
      bad + length (filter (\<lambda>r. \<not> success r) (envelopes E config p a prompt srcs w)))"
proof (induction srcs arbitrary: rs ok bad w)
  case Nil
  then show ?case by simp
next
  case (Cons s ss)
  obtain r w1 where b: "batch_item E config p a prompt s w = (r, w1)"
    by (cases "batch_item E config p a prompt s w")
  show ?case by (simp add: b Cons.IH)
qed

lemma length_envelopes: "length (envelopes E config p a prompt srcs w) = length srcs"
  by (induction srcs arbitrary: w) (auto split: prod.splits)

lemma envelopes_nth:
  "i < length srcs \<Longrightarrow>
     \<exists>wi. envelopes E config p a prompt srcs w ! i = fst (batch_item E config p a prompt (srcs ! i) wi)"
proof (induction srcs arbitrary: i w)
  case Nil
  then show ?case by simp
next
  case (Cons s ss)
  obtain r w1 where b: "batch_item E config p a prompt s w = (r, w1)"
    by (cases "batch_item E config p a prompt s w")
  show ?case
  proof (cases i)
    case 0
    have "envelopes E config p a prompt (s # ss) w ! 0 = fst (batch_item E config p a prompt s w)"
      by (simp add: b)
    then show ?thesis using 0 by auto
  next
    case (Suc j)
    then have "j < length ss" using Cons.prems by simp
    from Cons.IH[OF this, of w1] obtain wi where
      "envelopes E config p a prompt ss w1 ! j = fst (batch_item E config p a prompt (ss ! j) wi)" ..
    then show ?thesis using Suc by (auto simp: b)
  qed
qed

lemma filter_partition_length:
  "length (filter P xs) + length (filter (\<lambda>x. \<not> P x) xs) = length xs"
  by (induction xs) auto

section \<open>Path traversal\<close>

text \<open>
  Claim C7. A file-path input whose normalised form still has a \<^verbatim>\<open>..\<close> segment is
  rejected with an \<^verbatim>\<open>ImageLoadError\<close> (the source-load error) and the world is left as
  it was: no file-system operation has run. This holds for the file loader and, when
  the string is neither a URL nor inline data, for the resolver \<^verbatim>\<open>load_image_data\<close>.
\<close>

theorem traversal_segment_rejected:
  assumes "''..'' \<in> set (split_slash (normpath file_path))"
  shows "load_image_from_file E file_path w =
           (Inl (ImageLoadError (FileLoadFailed (InvalidFilePath file_path))), w)
       \<and> (\<not> is_url E file_path \<and> \<not> is_base64_image file_path \<longrightarrow>
            load_image_data E file_path timeout w =
              (Inl (ImageLoadError (FileLoadFailed (InvalidFilePath file_path))), w))"
proof -
  have "sublist ''..'' (normpath file_path)"
    using assms re_split_class_sublist unfolding split_slash_def by blast
  then have "sanitize_file_path E file_path w =
               (Inl (ImageValidationError (InvalidFilePath file_path)), w)"
    by (simp add: sanitize_file_path_def)
  then have "load_image_from_file E file_path w =
               (Inl (ImageLoadError (FileLoadFailed (InvalidFilePath file_path))), w)"
    by (simp add: load_image_from_file_def)
  then show ?thesis by (simp add: load_image_data_def)
qed

theorem traversal_segment_rejected_witness:
  "''..'' \<in> set (split_slash (normpath ''../../etc/passwd''))
   \<and> \<not> is_url offline_env ''../../etc/passwd''
   \<and> \<not> is_base64_image ''../../etc/passwd''
   \<and> load_image_from_file offline_env ''../../etc/passwd'' 0 =
       (Inl (ImageLoadError (FileLoadFailed (InvalidFilePath ''../../etc/passwd''))), 0)
   \<and> load_image_data offline_env ''../../etc/passwd'' 30 0 =
       (Inl (ImageLoadError (FileLoadFailed (InvalidFilePath ''../../etc/passwd''))), 0)"
proof -
  have h: "''..'' \<in> set (split_slash (normpath ''../../etc/passwd''))"
    by code_simp
  have u: "\<not> is_url offline_env ''../../etc/passwd''"
    by (simp add: is_url_def offline_env_def)
  have b: "\<not> is_base64_image ''../../etc/passwd''"
    by code_simp
  show ?thesis
    using h u b traversal_segment_rejected [OF h, of offline_env 0 30] by simp
qed

text \<open>
  Claim C10. A file path whose normalised form contains the two characters \<^verbatim>\<open>..\<close>
  anywhere, inside a file name as well, is rejected by \<^verbatim>\<open>sanitize_file_path\<close> with an
  \<^verbatim>\<open>ImageValidationError\<close>, and the world is left as it was: the file system has not
  been asked anything.
\<close>

theorem dotdot_substring_rejected:
  assumes "sublist ''..'' (normpath file_path)"
  shows "sanitize_file_path E file_path w =
           (Inl (ImageValidationError (InvalidFilePath file_path)), w)"
  using assms by (simp add: sanitize_file_path_def)

theorem dotdot_substring_rejected_witness:
  "sublist ''..'' (normpath ''photo..jpg'')
   \<and> ''..'' \<notin> set (split_slash (normpath ''photo..jpg''))
   \<and> sanitize_file_path offline_env ''photo..jpg'' 0 =
       (Inl (ImageValidationError (InvalidFilePath ''photo..jpg'')), 0)"
proof -
  have h: "sublist ''..'' (normpath ''photo..jpg'')"
    by code_simp
  have n: "''..'' \<notin> set (split_slash (normpath ''photo..jpg''))"
    by code_simp
  show ?thesis
    using h n dotdot_substring_rejected [OF h, of offline_env 0] by simp
qed

section \<open>Source classification\<close>

text \<open>
  Claim C4. Every string falls in exactly one of the kinds \<open>Url\<close>, \<open>InlineData\<close> and
  \<open>FilePath\<close>, tested in this order: a URL is a string whose parse has a scheme and a
  network location; inline data is a string that starts with \<^verbatim>\<open>data:image/\<close> or whose
  part after the first comma decodes, under strict base64, to at least one byte;
  anything else is a file path. The kind depends on the string and on the URL parser
  alone, it takes no world, and \<^verbatim>\<open>load_image_data\<close> runs the loader of that kind.
\<close>

theorem source_classification:
  "(classify_source E s = Url \<longleftrightarrow> is_url E s)
 \<and> (classify_source E s = InlineData \<longleftrightarrow> \<not> is_url E s \<and> is_base64_image s)
 \<and> (classify_source E s = FilePath \<longleftrightarrow> \<not> is_url E s \<and> \<not> is_base64_image s)
 \<and> (is_url E s \<longleftrightarrow>
      (\<exists>scheme netloc. urlparse E s = Some (scheme, netloc) \<and> scheme \<noteq> [] \<and> netloc \<noteq> []))
 \<and> (is_base64_image s \<longleftrightarrow>
      prefix ''data:image/'' s
      \<or> (\<exists>d. b64decode (if CHR '','' \<in> set s then after_first_comma s else s) = Some d
              \<and> d \<noteq> []))
 \<and> (urlparse E' = urlparse E \<longrightarrow> classify_source E' s = classify_source E s)
 \<and> load_image_data E s timeout w =
      (case classify_source E s of
         Url \<Rightarrow> apfst (map_sum id (\<lambda>d. (d, ''url''))) (load_image_from_url E s timeout w)
       | InlineData \<Rightarrow> (map_sum id (\<lambda>d. (d, ''base64'')) (load_image_from_base64 s), w)
       | FilePath \<Rightarrow> apfst (map_sum id (\<lambda>d. (d, ''file''))) (load_image_from_file E s w))"
proof -
  have k: "(classify_source E s = Url \<longleftrightarrow> is_url E s)
    \<and> (classify_source E s = InlineData \<longleftrightarrow> \<not> is_url E s \<and> is_base64_image s)
    \<and> (classify_source E s = FilePath \<longleftrightarrow> \<not> is_url E s \<and> \<not> is_base64_image s)"
    by (simp add: classify_source_def)
  have u: "is_url E s \<longleftrightarrow>
      (\<exists>scheme netloc. urlparse E s = Some (scheme, netloc) \<and> scheme \<noteq> [] \<and> netloc \<noteq> [])"
    by (auto simp: is_url_def split: option.splits)
  have b: "is_base64_image s \<longleftrightarrow>
      prefix ''data:image/'' s
      \<or> (\<exists>d. b64decode (if CHR '','' \<in> set s then after_first_comma s else s) = Some d
              \<and> d \<noteq> [])"
    by (auto simp: is_base64_image_def Let_def split: option.splits)
  have p: "urlparse E' = urlparse E \<longrightarrow> classify_source E' s = classify_source E s"
    by (simp add: classify_source_def is_url_def)
  have l: "load_image_data E s timeout w =
      (case classify_source E s of
         Url \<Rightarrow> apfst (map_sum id (\<lambda>d. (d, ''url''))) (load_image_from_url E s timeout w)
       | InlineData \<Rightarrow> (map_sum id (\<lambda>d. (d, ''base64'')) (load_image_from_base64 s), w)
       | FilePath \<Rightarrow> apfst (map_sum id (\<lambda>d. (d, ''file''))) (load_image_from_file E s w))"
    by (simp add: load_image_data_def classify_source_def split: prod.splits sum.splits)
  show ?thesis using k u b p l by blast
qed

theorem source_classification_witness:
  "urlparse offline_env = urlparse offline_env
   \<and> classify_source offline_env ''data:image/png;base64,QUJD'' = InlineData
   \<and> load_image_data offline_env ''data:image/png;base64,QUJD'' 30 0 = (Inr (''ABC'', ''base64''), 0)"
proof -
  have b: "is_base64_image ''data:image/png;base64,QUJD''" by code_simp
  have u: "\<not> is_url offline_env ''data:image/png;base64,QUJD''"
    by (simp add: is_url_def offline_env_def)
  have d: "load_image_from_base64 ''data:image/png;base64,QUJD'' = Inr ''ABC''" by code_simp
  note t = source_classification
             [of offline_env "''data:image/png;base64,QUJD''" offline_env 30 0]
  have c: "classify_source offline_env ''data:image/png;base64,QUJD'' = InlineData"
    using t b u by blast
  have "load_image_data offline_env ''data:image/png;base64,QUJD'' 30 0 =
          (map_sum id (\<lambda>d. (d, ''base64''))
             (load_image_from_base64 ''data:image/png;base64,QUJD''), 0)"
    using t c by simp
  then show ?thesis using c d by simp
qed

section \<open>Inline data\<close>

text \<open>
  Claim C8, as the code has it. An input that starts with \<^verbatim>\<open>data:image/\<close> and contains a
  comma is decoded from what follows its first comma, any other input is decoded
  whole; the decoding is strict (a character that is neither in the base64 alphabet
  nor \<^verbatim>\<open>=\<close> makes it fail), a failed decoding is an \<^verbatim>\<open>ImageLoadError\<close>, and an empty
  payload is not an error: a data URL with nothing after its comma loads as the empty
  byte string.
\<close>

theorem inline_data_decoding:
  "(prefix ''data:image/'' (a @ CHR '','' # b) \<longrightarrow> CHR '','' \<notin> set a \<longrightarrow>
      load_image_from_base64 (a @ CHR '','' # b) =
        (case b64decode b of None \<Rightarrow> Inl (ImageLoadError Base64Failed) | Some d \<Rightarrow> Inr d))
 \<and> (\<not> (prefix ''data:image/'' s \<and> CHR '','' \<in> set s) \<longrightarrow>
      load_image_from_base64 s =
        (case b64decode s of None \<Rightarrow> Inl (ImageLoadError Base64Failed) | Some d \<Rightarrow> Inr d))
 \<and> (c \<in> set x \<longrightarrow> c \<noteq> CHR ''='' \<longrightarrow> b64_value c = None \<longrightarrow> b64decode x = None)
 \<and> (prefix ''data:image/'' (a @ [CHR '','']) \<longrightarrow> CHR '','' \<notin> set a \<longrightarrow>
      load_image_from_base64 (a @ [CHR '','']) = Inr [])"
proof -
  have 1: "prefix ''data:image/'' (a @ CHR '','' # b) \<longrightarrow> CHR '','' \<notin> set a \<longrightarrow>
      load_image_from_base64 (a @ CHR '','' # b) =
        (case b64decode b of None \<Rightarrow> Inl (ImageLoadError Base64Failed) | Some d \<Rightarrow> Inr d)"
    by (simp add: load_image_from_base64_def after_first_comma_split)
  have 2: "\<not> (prefix ''data:image/'' s \<and> CHR '','' \<in> set s) \<longrightarrow>
      load_image_from_base64 s =
        (case b64decode s of None \<Rightarrow> Inl (ImageLoadError Base64Failed) | Some d \<Rightarrow> Inr d)"
    by (simp add: load_image_from_base64_def)
  have 3: "c \<in> set x \<longrightarrow> c \<noteq> CHR ''='' \<longrightarrow> b64_value c = None \<longrightarrow> b64decode x = None"
    using b64decode_bad_char by blast
  have 4: "prefix ''data:image/'' (a @ [CHR '','']) \<longrightarrow> CHR '','' \<notin> set a \<longrightarrow>
      load_image_from_base64 (a @ [CHR '','']) = Inr []"
    by (simp add: load_image_from_base64_def after_first_comma_split b64decode_def)
  show ?thesis using 1 2 3 4 by blast
qed

theorem inline_data_decoding_witness:
  "prefix ''data:image/'' (''data:image/png;base64'' @ CHR '','' # ''QUJD'')
   \<and> CHR '','' \<notin> set ''data:image/png;base64''
   \<and> load_image_from_base64 ''data:image/png;base64,QUJD'' = Inr ''ABC''
   \<and> \<not> (prefix ''data:image/'' ''QUJD'' \<and> CHR '','' \<in> set ''QUJD'')
   \<and> load_image_from_base64 ''QUJD'' = Inr ''ABC''
   \<and> CHR '' '' \<in> set ''QU JD'' \<and> b64_value CHR '' '' = None
   \<and> b64decode ''QU JD'' = None"
proof -
  have p: "prefix ''data:image/'' (''data:image/png;base64'' @ CHR '','' # ''QUJD'')" by simp
  have n: "CHR '','' \<notin> set ''data:image/png;base64''" by simp
  have d: "b64decode ''QUJD'' = Some ''ABC''" by code_simp
  have q: "\<not> (prefix ''data:image/'' ''QUJD'' \<and> CHR '','' \<in> set ''QUJD'')" by simp
  have m: "CHR '' '' \<in> set ''QU JD''" by simp
  have v: "b64_value CHR '' '' = None" by (simp add: b64_value_def)
  show ?thesis
    using p n d q m v
      inline_data_decoding [of "''data:image/png;base64''" "''QUJD''" "''QUJD''" "CHR '' ''" "''QU JD''"]
    by simp
qed

text \<open>The claim as stated fails: the empty payload of a data URL is returned, not
  rejected.\<close>

theorem empty_payload_counterexample:
  "load_image_from_base64 ''data:image/png;base64,'' = Inr []"
  by code_simp

section \<open>Size limit\<close>

text \<open>
  Claim C9. A buffer whose size in megabytes (its length over \<open>2 ^ 20\<close>) is strictly
  above the configured maximum is rejected with the size error, whatever the decoder
  would do, and the world is left as it was: the decoder has not run. A buffer at or
  below the maximum passes the size check. (Lengths are below \<open>2 ^ 53\<close> bytes, where
  the float quotient is the exact quotient.)
\<close>

theorem oversize_rejected_before_decode:
  assumes "length image_data < 2 ^ 53"
  shows "(max_size_mb < of_nat (length image_data) / 1048576 \<longrightarrow>
            validate_and_process_image E image_data max_size_mb resize_if_needed w =
              (Inl (ImageValidationError
                      (SizeExceeds (of_nat (length image_data) / 1048576) max_size_mb)), w))
       \<and> (of_nat (length image_data) / 1048576 \<le> max_size_mb \<longrightarrow>
            validate_image_size image_data max_size_mb = Inr ())"
  using size_mb_exact [OF assms]
  by (simp add: validate_and_process_image_def validate_image_size_def)

theorem oversize_rejected_before_decode_witness:
  "length ''ab'' < 2 ^ 53
   \<and> (1 / 1048576 :: rat) < of_nat (length ''ab'') / 1048576
   \<and> validate_and_process_image
        (offline_env\<lparr>image_open :=
           (\<lambda>d w. (Inr \<lparr>format = Some ''PNG'', width = 1, height = 1, mode = ''RGB'',
                         has_getexif = False\<rparr>, Suc w))\<rparr>)
        ''ab'' (1 / 1048576) True 0 =
       (Inl (ImageValidationError (SizeExceeds (2 / 1048576) (1 / 1048576))), 0)
   \<and> of_nat (length ''ab'') / 1048576 \<le> (10 :: rat)
   \<and> validate_image_size ''ab'' 10 = Inr ()"
proof -
  have h: "length ''ab'' < 2 ^ 53" by simp
  have a: "(1 / 1048576 :: rat) < of_nat (length ''ab'') / 1048576" by simp
  have b: "of_nat (length ''ab'') / 1048576 \<le> (10 :: rat)" by simp
  show ?thesis
    using h a b
      oversize_rejected_before_decode [OF h, of "1 / 1048576" _ True 0]
      oversize_rejected_before_decode [OF h, of 10 offline_env True 0]
    by simp
qed

section \<open>Resizing\<close>

text \<open>
  Claim C5 fails on the code. A decoded bitmap of 3136 by 2000 pixels is resized, the
  metadata records \<^verbatim>\<open>resized\<close> and the original size, but the larger output dimension
  is 2047, not 2048: the quotient \<^verbatim>\<open>2048 / 3136\<close> is rounded down to the nearest float,
  the product \<^verbatim>\<open>3136 * ratio\<close> is \<open>2048 - 2 ^ -42\<close>, and \<^verbatim>\<open>int\<close> truncates it.
\<close>

theorem resize_3136_yields_2047:
  "validate_and_process_image
     (offline_env\<lparr>image_open :=
        (\<lambda>d w. (Inr \<lparr>format = Some ''JPEG'', width = 3136, height = 2000, mode = ''RGB'',
                      has_getexif = True\<rparr>, Suc w))\<rparr>)
     [CHR 0xFF, CHR 0xD8, CHR 0xFF, CHR 0xE0] 10 True 0 =
   (Inr (\<lparr>format = None, width = 2047, height = 1306, mode = ''RGB'', has_getexif = False\<rparr>,
         \<lparr>md_width = 2047, md_height = 1306, md_format = Some ''JPEG'', md_mode = ''RGB'',
          md_size_bytes = 4, md_resized = Some True, md_original_size = Some (3136, 2000)\<rparr>), 1)"
  by code_simp

section \<open>Format detection\<close>

text \<open>
  Claim C6 fails on the code. The sniffer tags a RIFF/WEBP header \<^verbatim>\<open>WEBP\<close>, and so does
  the codec for a WebP file, but the supported set spells the format \<^verbatim>\<open>WebP\<close>: an
  image whose format is WEBP is rejected with a validation error, whether the tag
  comes from the codec or from the leading bytes.
\<close>

theorem webp_rejected:
  "validate_and_process_image
     (offline_env\<lparr>image_open :=
        (\<lambda>d w. (Inr \<lparr>format = Some ''WEBP'', width = 1, height = 1, mode = ''RGB'',
                      has_getexif = True\<rparr>, Suc w))\<rparr>)
     (''RIFF'' @ [CHR 0x24, CHR 0x00, CHR 0x00, CHR 0x00] @ ''WEBPVP8 '') 10 True 0 =
   (Inl (ImageValidationError (UnsupportedFormat (Some ''WEBP''))), 1)
  \<and> sniff_format (''RIFF'' @ [CHR 0x24, CHR 0x00, CHR 0x00, CHR 0x00] @ ''WEBPVP8 '') = ''WEBP''
  \<and> validate_and_process_image
     (offline_env\<lparr>image_open :=
        (\<lambda>d w. (Inr \<lparr>format = None, width = 1, height = 1, mode = ''RGB'',
                      has_getexif = False\<rparr>, Suc w))\<rparr>)
     (''RIFF'' @ [CHR 0x24, CHR 0x00, CHR 0x00, CHR 0x00] @ ''WEBPVP8 '') 10 True 0 =
   (Inl (ImageValidationError (UnsupportedFormat (Some ''WEBP''))), 1)"
  by code_simp

section \<open>The single-image envelope\<close>

text \<open>
  Claim C2 fails on the code. With a provider string that names no provider, the
  \<^verbatim>\<open>try\<close> block of \<^verbatim>\<open>process_image\<close> raises, and the handler raises the same error again
  while it builds the envelope: the exception leaves the function and the caller gets
  no envelope, whatever the other arguments and the environment are.
\<close>

theorem unknown_provider_escapes:
  "fst (process_image E config image_source (Some ''foo'') api_key analysis_type prompt w) =
     Inl (ValueError (NotAValidEnum ''foo'' ''APIProvider''))"
  by (simp add: process_image_def process_image_try_def resolve_request_def to_APIProvider_def
           split: prod.splits)

section \<open>Response coercion\<close>

text \<open>
  Claim C3, as the code has it. When the response parses to a list, object detection
  and text extraction both give the records of its elements in order: an object with
  the expected key (\<^verbatim>\<open>name\<close>, \<^verbatim>\<open>content\<close>) gives a record, with confidence 0.8 when it
  has none, a bare string gives a record with confidence 0.8, other elements are
  skipped, and an element whose values fail the model's validation fails the call.
  When the response does not parse or is not a list, object detection runs the
  heuristic extractor (lead-in stripped, split on comma, semicolon, period and
  newline, fragments under three characters dropped, a leading article stripped,
  confidence 0.7, at most ten records), and text extraction returns the whole response
  as one record with confidence 0.8. The first example yields one record \<^verbatim>\<open>cat\<close> at
  0.9; the second yields \<^verbatim>\<open>dog\<close>, \<^verbatim>\<open>ball\<close> and \<^verbatim>\<open>and a tree\<close> at 0.7.
\<close>

theorem response_coercion:
  "(json_loads E r = Some (JList items) \<longrightarrow>
      coerce_objects E r = collect (map (object_of_item E) items)
    \<and> coerce_text E r = collect (map (text_of_item E) items))
 \<and> ((\<forall>items. json_loads E r' \<noteq> Some (JList items)) \<longrightarrow>
      coerce_objects E r' = Inr (extract_objects_from_text r')
    \<and> coerce_text E r' = Inr [\<lparr>content = r', text_confidence = lit_0_8\<rparr>])
 \<and> extract_objects_from_text t = heuristic_objects t
 \<and> length (extract_objects_from_text t) \<le> 10
 \<and> (\<forall>x \<in> set (extract_objects_from_text t). confidence x = lit_0_7 \<and> name x \<noteq> [])
 \<and> (json_loads E cat_response =
        Some (JList [JDict [(''name'', JStr ''cat''), (''confidence'', JNum (fl (9 / 10)))]]) \<longrightarrow>
      coerce_objects E cat_response = Inr [\<lparr>name = ''cat'', confidence = fl (9 / 10)\<rparr>])
 \<and> extract_objects_from_text dog_response =
      [\<lparr>name = ''dog'', confidence = lit_0_7\<rparr>, \<lparr>name = ''ball'', confidence = lit_0_7\<rparr>,
       \<lparr>name = ''and a tree'', confidence = lit_0_7\<rparr>]"
proof -
  have 1: "json_loads E r = Some (JList items) \<longrightarrow>
      coerce_objects E r = collect (map (object_of_item E) items)
    \<and> coerce_text E r = collect (map (text_of_item E) items)"
    by (simp add: coerce_objects_def coerce_text_def object_items_collect text_items_collect
          collect_case_id)
  have 2: "(\<forall>items. json_loads E r' \<noteq> Some (JList items)) \<longrightarrow>
      coerce_objects E r' = Inr (extract_objects_from_text r')
    \<and> coerce_text E r' = Inr [\<lparr>content = r', text_confidence = lit_0_8\<rparr>]"
    by (auto simp: coerce_objects_def coerce_text_def split: option.splits json.splits)
  have 3: "extract_objects_from_text t = heuristic_objects t"
    by (rule extract_objects_heuristic)
  have 4: "length (extract_objects_from_text t) \<le> 10"
    by (simp add: extract_objects_from_text_def Let_def)
  have 5: "\<forall>x \<in> set (extract_objects_from_text t). confidence x = lit_0_7 \<and> name x \<noteq> []"
    using heuristic_confidence by blast
  have c: "0 \<le> fl (9 / 10) \<and> fl (9 / 10) \<le> 1" by code_simp
  have 6: "json_loads E cat_response =
        Some (JList [JDict [(''name'', JStr ''cat''), (''confidence'', JNum (fl (9 / 10)))]]) \<longrightarrow>
      coerce_objects E cat_response = Inr [\<lparr>name = ''cat'', confidence = fl (9 / 10)\<rparr>]"
    using c by (simp add: coerce_objects_def confidence_of_def confidence_field_def str_field_def)
  have 7: "extract_objects_from_text dog_response =
      [\<lparr>name = ''dog'', confidence = lit_0_7\<rparr>, \<lparr>name = ''ball'', confidence = lit_0_7\<rparr>,
       \<lparr>name = ''and a tree'', confidence = lit_0_7\<rparr>]"
    by code_simp
  show ?thesis using 1 2 3 4 5 6 7 by blast
qed

theorem response_coercion_witness:
  "json_loads
     (offline_env\<lparr>json_loads := (\<lambda>s. if s = cat_response
        then Some (JList [JDict [(''name'', JStr ''cat''), (''confidence'', JNum (fl (9 / 10)))]])
        else None)\<rparr>) cat_response =
     Some (JList [JDict [(''name'', JStr ''cat''), (''confidence'', JNum (fl (9 / 10)))]])
   \<and> coerce_objects
     (offline_env\<lparr>json_loads := (\<lambda>s. if s = cat_response
        then Some (JList [JDict [(''name'', JStr ''cat''), (''confidence'', JNum (fl (9 / 10)))]])
        else None)\<rparr>) cat_response = Inr [\<lparr>name = ''cat'', confidence = fl (9 / 10)\<rparr>]
   \<and> (\<forall>items. json_loads
     (offline_env\<lparr>json_loads := (\<lambda>s. if s = cat_response
        then Some (JList [JDict [(''name'', JStr ''cat''), (''confidence'', JNum (fl (9 / 10)))]])
        else None)\<rparr>) dog_response \<noteq> Some (JList items))
   \<and> coerce_objects
     (offline_env\<lparr>json_loads := (\<lambda>s. if s = cat_response
        then Some (JList [JDict [(''name'', JStr ''cat''), (''confidence'', JNum (fl (9 / 10)))]])
        else None)\<rparr>) dog_response = Inr (extract_objects_from_text dog_response)
   \<and> \<lparr>name = ''dog'', confidence = lit_0_7\<rparr> \<in> set (extract_objects_from_text dog_response)
   \<and> length (extract_objects_from_text dog_response) \<le> 10"
proof -
  define E where "E = offline_env\<lparr>json_loads := (\<lambda>s. if s = cat_response
        then Some (JList [JDict [(''name'', JStr ''cat''), (''confidence'', JNum (fl (9 / 10)))]])
        else None)\<rparr>"
  have a: "json_loads E cat_response =
     Some (JList [JDict [(''name'', JStr ''cat''), (''confidence'', JNum (fl (9 / 10)))]])"
    by (simp add: E_def)
  have ne: "dog_response \<noteq> cat_response" by (simp add: dog_response_def cat_response_def)
  have b: "\<forall>items. json_loads E dog_response \<noteq> Some (JList items)"
    using ne by (simp add: E_def)
  note t = response_coercion [of E cat_response
      "[JDict [(''name'', JStr ''cat''), (''confidence'', JNum (fl (9 / 10)))]]"
      dog_response dog_response]
  have c: "coerce_objects E cat_response = Inr [\<lparr>name = ''cat'', confidence = fl (9 / 10)\<rparr>]"
    using t a by blast
  have d: "coerce_objects E dog_response = Inr (extract_objects_from_text dog_response)"
    using t b by blast
  have e: "extract_objects_from_text dog_response =
      [\<lparr>name = ''dog'', confidence = lit_0_7\<rparr>, \<lparr>name = ''ball'', confidence = lit_0_7\<rparr>,
       \<lparr>name = ''and a tree'', confidence = lit_0_7\<rparr>]"
    using t by blast
  have f: "\<lparr>name = ''dog'', confidence = lit_0_7\<rparr> \<in> set (extract_objects_from_text dog_response)"
    by (simp add: e)
  have g: "length (extract_objects_from_text dog_response) \<le> 10" using t by blast
  show ?thesis using a b c d f g unfolding E_def by blast
qed

text \<open>The claim as stated fails: the third record of the example is \<^verbatim>\<open>and a tree\<close>, text
  extraction does not run the heuristic extractor on a response that is not JSON, and
  an object with the expected key but a confidence of 1.5 gives no record.\<close>

theorem response_coercion_counterexample:
  "map name (extract_objects_from_text ''I can see a dog, a ball, and a tree.'') =
     [''dog'', ''ball'', ''and a tree'']
   \<and> json_loads offline_env ''I can see a dog, a ball, and a tree.'' = None
   \<and> coerce_text offline_env ''I can see a dog, a ball, and a tree.'' =
       Inr [\<lparr>content = ''I can see a dog, a ball, and a tree.'', text_confidence = lit_0_8\<rparr>]
   \<and> object_items offline_env
       [JDict [(''name'', JStr ''cat''), (''confidence'', JNum (3 / 2))]] [] =
       Inl validation_error"
proof -
  have 1: "map name (extract_objects_from_text ''I can see a dog, a ball, and a tree.'') =
     [''dog'', ''ball'', ''and a tree'']" by code_simp
  have 2: "json_loads offline_env ''I can see a dog, a ball, and a tree.'' = None"
    by (simp add: offline_env_def)
  have 3: "coerce_text offline_env ''I can see a dog, a ball, and a tree.'' =
       Inr [\<lparr>content = ''I can see a dog, a ball, and a tree.'', text_confidence = lit_0_8\<rparr>]"
    by (simp add: coerce_text_def offline_env_def)
  have 4: "object_items offline_env
       [JDict [(''name'', JStr ''cat''), (''confidence'', JNum (3 / 2))]] [] =
       Inl validation_error"
    by (simp add: confidence_of_def confidence_field_def str_field_def)
  show ?thesis using 1 2 3 4 by blast
qed

section \<open>The batch envelope\<close>

text \<open>
  Claim C1, as the code has it. The batch envelope always counts \<open>N\<close> images and its
  two counters always sum to \<open>N\<close>. When provider, analysis type, key and client are
  set up, the results are the envelopes of the sources in input order, \<open>N\<close> of them,
  the one at index \<open>i\<close> produced by the item pipeline on source \<open>i\<close>, failed items
  included, and the counters count the successful and the failed envelopes. When the
  set-up fails, the results are empty, nothing is successful and all \<open>N\<close> are counted
  as failed.
\<close>

theorem batch_envelope:
  "total_images (fst (analyze_image_batch E config srcs ap key atype prompt w)) = length srcs
 \<and> successful (fst (analyze_image_batch E config srcs ap key atype prompt w))
     + failed (fst (analyze_image_batch E config srcs ap key atype prompt w)) = length srcs
 \<and> (\<forall>e. batch_setup config ap key atype = Inl e \<longrightarrow>
       results (fst (analyze_image_batch E config srcs ap key atype prompt w)) = []
     \<and> successful (fst (analyze_image_batch E config srcs ap key atype prompt w)) = 0)
 \<and> (\<forall>p a. batch_setup config ap key atype = Inr (p, a) \<longrightarrow>
       results (fst (analyze_image_batch E config srcs ap key atype prompt w)) =
         envelopes E config p a prompt srcs (snd (time_time E w))
     \<and> length (results (fst (analyze_image_batch E config srcs ap key atype prompt w))) =
         length srcs
     \<and> successful (fst (analyze_image_batch E config srcs ap key atype prompt w)) =
         length (filter success
                   (results (fst (analyze_image_batch E config srcs ap key atype prompt w))))
     \<and> (\<forall>i < length srcs. \<exists>wi.
           results (fst (analyze_image_batch E config srcs ap key atype prompt w)) ! i =
             fst (batch_item E config p a prompt (srcs ! i) wi)))"
proof -
  obtain t0 w0 where t: "time_time E w = (t0, w0)" by (cases "time_time E w")
  let ?B = "fst (analyze_image_batch E config srcs ap key atype prompt w)"
  show ?thesis
  proof (cases "batch_setup config ap key atype")
    case (Inl e)
    then have "?B = \<lparr>total_images = length srcs, successful = 0, failed = length srcs,
                     results = [], batch_processing_time = py_fsub (fst (time_time E w0)) t0\<rparr>"
      by (simp add: analyze_image_batch_def t split: prod.splits)
    then show ?thesis using Inl by simp
  next
    case (Inr pa)
    obtain p a where pa: "pa = (p, a)" by (cases pa)
    let ?es = "envelopes E config p a prompt srcs w0"
    obtain w1 where l: "batch_loop E config p a prompt srcs ([], 0, 0) w0 =
         (([] @ ?es, 0 + length (filter success ?es),
           0 + length (filter (\<lambda>r. \<not> success r) ?es)), w1)"
      using batch_loop_envelopes[of E config p a prompt srcs "[]" 0 0 w0]
      by (cases "batch_loop E config p a prompt srcs ([], 0, 0) w0") auto
    have B: "?B = \<lparr>total_images = length srcs, successful = length (filter success ?es),
                   failed = length (filter (\<lambda>r. \<not> success r) ?es),
                   results = ?es, batch_processing_time = py_fsub (fst (time_time E w1)) t0\<rparr>"
      using Inr pa l by (simp add: analyze_image_batch_def t split: prod.splits)
    have n: "\<forall>i < length srcs. \<exists>wi. ?es ! i = fst (batch_item E config p a prompt (srcs ! i) wi)"
      by (intro allI impI envelopes_nth)
    show ?thesis
      using Inr pa n
      by (simp add: B t length_envelopes filter_partition_length)
  qed
qed

theorem batch_envelope_witness:
  "batch_setup default_config None (Some ''sk-test'') None = Inr (OPENAI, COMPREHENSIVE)
   \<and> length (results (fst (analyze_image_batch offline_env default_config
                              [''a.png'', ''../b.png''] None (Some ''sk-test'') None None 0))) = 2
   \<and> successful (fst (analyze_image_batch offline_env default_config
                        [''a.png'', ''../b.png''] None (Some ''sk-test'') None None 0))
       + failed (fst (analyze_image_batch offline_env default_config
                        [''a.png'', ''../b.png''] None (Some ''sk-test'') None None 0)) = 2
   \<and> (\<exists>wi. results (fst (analyze_image_batch offline_env default_config
                             [''a.png'', ''../b.png''] None (Some ''sk-test'') None None 0)) ! 1 =
         fst (batch_item offline_env default_config OPENAI COMPREHENSIVE None ''../b.png'' wi))
   \<and> batch_setup default_config None None None = Inl (ValueError (NoApiKey ''openai''))
   \<and> results (fst (analyze_image_batch offline_env default_config
                     [''a.png'', ''../b.png''] None None None None 0)) = []"
proof -
  have s: "batch_setup default_config None (Some ''sk-test'') None = Inr (OPENAI, COMPREHENSIVE)"
    by (simp add: batch_setup_def resolve_request_def to_APIProvider_def to_AnalysisType_def
          get_api_key_def create_api_client_def default_config_def)
  have f: "batch_setup default_config None None None = Inl (ValueError (NoApiKey ''openai''))"
    by (simp add: batch_setup_def resolve_request_def to_APIProvider_def to_AnalysisType_def
          get_api_key_def default_config_def)
  note t1 = batch_envelope [of offline_env default_config "[''a.png'', ''../b.png'']"
                              None "Some ''sk-test''" None None 0]
  note t2 = batch_envelope [of offline_env default_config "[''a.png'', ''../b.png'']"
                              None None None None 0]
  have "length (results (fst (analyze_image_batch offline_env default_config
                              [''a.png'', ''../b.png''] None (Some ''sk-test'') None None 0))) =
          length [''a.png'', ''../b.png'']"
    using t1 s by blast
  then have a: "length (results (fst (analyze_image_batch offline_env default_config
                              [''a.png'', ''../b.png''] None (Some ''sk-test'') None None 0))) = 2"
    by simp
  have "successful (fst (analyze_image_batch offline_env default_config
                        [''a.png'', ''../b.png''] None (Some ''sk-test'') None None 0))
       + failed (fst (analyze_image_batch offline_env default_config
                        [''a.png'', ''../b.png''] None (Some ''sk-test'') None None 0)) =
          length [''a.png'', ''../b.png'']"
    using t1 by blast
  then have b: "successful (fst (analyze_image_batch offline_env default_config
                        [''a.png'', ''../b.png''] None (Some ''sk-test'') None None 0))
       + failed (fst (analyze_image_batch offline_env default_config
                        [''a.png'', ''../b.png''] None (Some ''sk-test'') None None 0)) = 2"
    by simp
  have "\<forall>i < length [''a.png'', ''../b.png'']. \<exists>wi.
          results (fst (analyze_image_batch offline_env default_config
                          [''a.png'', ''../b.png''] None (Some ''sk-test'') None None 0)) ! i =
            fst (batch_item offline_env default_config OPENAI COMPREHENSIVE None
                   ([''a.png'', ''../b.png''] ! i) wi)"
    using t1 s by blast
  then have c: "\<exists>wi. results (fst (analyze_image_batch offline_env default_config
                             [''a.png'', ''../b.png''] None (Some ''sk-test'') None None 0)) ! 1 =
         fst (batch_item offline_env default_config OPENAI COMPREHENSIVE None ''../b.png'' wi)"
    by (metis One_nat_def length_Cons lessI list.size(3) nth_Cons_0 nth_Cons_Suc)
  have d: "results (fst (analyze_image_batch offline_env default_config
                     [''a.png'', ''../b.png''] None None None None 0)) = []"
    using t2 f by blast
  show ?thesis using s f a b c d by blast
qed

text \<open>The claim as stated fails: with no credential configured, a batch of one source
  returns no envelope at all.\<close>

theorem batch_envelope_counterexample:
  "results (fst (analyze_image_batch offline_env default_config [''photo.png'']
                   None None None None 0)) = []
   \<and> length [''photo.png''] = 1"
  by (simp add: analyze_image_batch_def batch_setup_def resolve_request_def to_APIProvider_def
        to_AnalysisType_def get_api_key_def default_config_def offline_env_def)

end
